theory Spec2Isabelle
  imports Complex_Main "HOL-Library.Log_Nat"
begin

section \<open>JavaScript numbers\<close>

text \<open>
  A JavaScript number is a finite value, one of the two infinities, or NaN. A finite
  value is carried as the real number it denotes; the sign of zero is not modelled.
\<close>

datatype jsnum = NaN | NegInf | Fin real | PosInf

text \<open>Rounding to the nearest integer, a tie going to the even one.\<close>

definition round_half_even :: "real \<Rightarrow> int" where
  "round_half_even q =
     (let f = \<lfloor>q\<rfloor>
      in if q - of_int f < 1 / 2 then f
         else if q - of_int f > 1 / 2 then f + 1
         else if even f then f else f + 1)"

text \<open>
  The binade of a real other than zero: the integer \<^verbatim>\<open>k\<close> with
  \<^verbatim>\<open>2^k <= |v| < 2^(k+1)\<close>, from the bit length of the integer part, or of the
  reciprocal when the magnitude is below one.
\<close>

definition binade :: "real \<Rightarrow> int" where
  "binade v = (if 1 \<le> \<bar>v\<bar> then bitlen \<lfloor>\<bar>v\<bar>\<rfloor> - 1 else - bitlen (\<lceil>1 / \<bar>v\<bar>\<rceil> - 1))"

text \<open>
  The Number value of a real: the nearest IEEE 754 double, ties to even. The doubles
  are the values \<^verbatim>\<open>m * 2^e\<close> with \<^verbatim>\<open>m < 2^53\<close> and \<^verbatim>\<open>-1074 <= e <= 971\<close>;
  \<^verbatim>\<open>e\<close> below is the exponent of the last place in the binade of \<^verbatim>\<open>v\<close>, and a
  magnitude that rounds to \<^verbatim>\<open>2^1024\<close> is infinite.
\<close>

definition number_value :: "real \<Rightarrow> jsnum" where
  "number_value v =
     (if v = 0 then Fin 0
      else
        (let e = max (binade v - 52) (- 1074);
             m = round_half_even (\<bar>v\<bar> / 2 powi e);
             r = of_int m * 2 powi e
         in if r \<ge> 2 ^ 1024 then (if v > 0 then PosInf else NegInf)
            else Fin (if v > 0 then r else - r)))"

text \<open>The operator \<^verbatim>\<open>a + b\<close> on two numbers: the exact sum, rounded.\<close>

fun js_add :: "jsnum \<Rightarrow> jsnum \<Rightarrow> jsnum" where
  "js_add NaN b = NaN"
| "js_add a NaN = NaN"
| "js_add (Fin a) (Fin b) = number_value (a + b)"
| "js_add PosInf NegInf = NaN"
| "js_add NegInf PosInf = NaN"
| "js_add PosInf b = PosInf"
| "js_add a PosInf = PosInf"
| "js_add NegInf b = NegInf"
| "js_add a NegInf = NegInf"

fun js_neg :: "jsnum \<Rightarrow> jsnum" where
  "js_neg NaN = NaN"
| "js_neg NegInf = PosInf"
| "js_neg (Fin a) = Fin (- a)"
| "js_neg PosInf = NegInf"

text \<open>The operator \<^verbatim>\<open>a - b\<close> on two numbers.\<close>

definition js_sub :: "jsnum \<Rightarrow> jsnum \<Rightarrow> jsnum" where
  "js_sub a b = js_add a (js_neg b)"

text \<open>The comparison \<^verbatim>\<open>a <= b\<close>: false as soon as one side is NaN.\<close>

fun js_le :: "jsnum \<Rightarrow> jsnum \<Rightarrow> bool" where
  "js_le NaN b = False"
| "js_le a NaN = False"
| "js_le NegInf b = True"
| "js_le a PosInf = True"
| "js_le (Fin a) (Fin b) = (a \<le> b)"
| "js_le a b = False"

text \<open>The global \<^verbatim>\<open>isNaN\<close> on a value that is already a number.\<close>

definition isNaN :: "jsnum \<Rightarrow> bool" where
  "isNaN n = (n = NaN)"

text \<open>Truthiness of a number: \<^verbatim>\<open>0\<close> and \<^verbatim>\<open>NaN\<close> are falsy.\<close>

definition truthy_num :: "jsnum \<Rightarrow> bool" where
  "truthy_num n = (n \<noteq> NaN \<and> n \<noteq> Fin 0)"

text \<open>
  \<^verbatim>\<open>(t.amount || 0)\<close>, for a field that is absent (or null) or holds a
  number. A document whose amount is of another type is outside the model.
\<close>

definition or_zero :: "jsnum option \<Rightarrow> jsnum" where
  "or_zero v = (case v of None \<Rightarrow> Fin 0 | Some n \<Rightarrow> if truthy_num n then n else Fin 0)"

section \<open>Variant 1: transactions (src/App.js)\<close>

text \<open>
  The value of a document's \<^verbatim>\<open>date\<close> field as the snapshot delivers it: absent,
  null (a server timestamp that is still pending), a string, or a Firestore
  Timestamp, carried as the epoch milliseconds its \<^verbatim>\<open>toDate()\<close> yields. Only a
  Timestamp has the member \<^verbatim>\<open>toDate\<close>.
\<close>

datatype date_field = Undefined | Null | Str string | Timestamp int

definition truthy_date :: "date_field \<Rightarrow> bool" where
  "truthy_date d = (case d of Undefined \<Rightarrow> False | Null \<Rightarrow> False | Str s \<Rightarrow> s \<noteq> [] | Timestamp ms \<Rightarrow> True)"

text \<open>\<^verbatim>\<open>d.toDate\<close> is a function exactly on Timestamps; \<^verbatim>\<open>d.toDate()\<close> then gives the instant.\<close>

definition toDate :: "date_field \<Rightarrow> int option" where
  "toDate d = (case d of Timestamp ms \<Rightarrow> Some ms | _ \<Rightarrow> None)"

text \<open>
  A transaction as \<^verbatim>\<open>{id: doc.id, ...doc.data()}\<close>. The fields \<^verbatim>\<open>type\<close> and
  \<^verbatim>\<open>status\<close> are only ever compared with \<^verbatim>\<open>===\<close> against string literals, so
  they are strings here.
\<close>

record transaction =
  doc_id :: string
  amount :: "jsnum option"
  category :: string
  ttype :: string
  status :: string
  date :: date_field
  createdAt :: date_field

subsection \<open>Summary calculations\<close>

definition totalIncome :: "transaction list \<Rightarrow> jsnum" where
  "totalIncome transactions =
     foldl (\<lambda>acc t. js_add acc (or_zero (amount t))) (Fin 0)
       (filter (\<lambda>t. ttype t = ''income'' \<and> status t = ''actual'') transactions)"

definition totalExpenses :: "transaction list \<Rightarrow> jsnum" where
  "totalExpenses transactions =
     foldl (\<lambda>acc t. js_add acc (or_zero (amount t))) (Fin 0)
       (filter (\<lambda>t. ttype t = ''expense'' \<and> status t = ''actual'') transactions)"

definition balance :: "transaction list \<Rightarrow> jsnum" where
  "balance transactions = js_sub (totalIncome transactions) (totalExpenses transactions)"

subsection \<open>Cash flow windows\<close>

record cash_flow =
  income :: jsnum
  expenses :: jsnum
  net :: jsnum

definition msPerDay :: int where
  "msPerDay = 24 * 60 * 60 * 1000"

text \<open>
  One pass of the \<^verbatim>\<open>forEach\<close> body of \<^verbatim>\<open>getActualCashFlowForLast30Days\<close> over
  the two accumulators \<^verbatim>\<open>(incomeLast30Days, expensesLast30Days)\<close>.
\<close>

definition actual_body :: "int \<Rightarrow> jsnum \<times> jsnum \<Rightarrow> transaction \<Rightarrow> jsnum \<times> jsnum" where
  "actual_body thirtyDaysAgo acc t =
     (if status t = ''actual'' \<and> truthy_date (date t) \<and> toDate (date t) \<noteq> None
         \<and> the (toDate (date t)) \<ge> thirtyDaysAgo
      then (if ttype t = ''income'' then (js_add (fst acc) (or_zero (amount t)), snd acc)
            else if ttype t = ''expense'' then (fst acc, js_add (snd acc) (or_zero (amount t)))
            else acc)
      else acc)"

text \<open>
  \<^verbatim>\<open>now\<close> is the value of \<^verbatim>\<open>Date.now()\<close>. \<^verbatim>\<open>Timestamp.fromDate\<close> followed by
  \<^verbatim>\<open>toDate\<close> gives back the same millisecond.
\<close>

definition getActualCashFlowForLast30Days :: "int \<Rightarrow> transaction list \<Rightarrow> cash_flow" where
  "getActualCashFlowForLast30Days now transactions =
     (let thirtyDaysAgo = now - 30 * 24 * 60 * 60 * 1000;
          acc = foldl (actual_body thirtyDaysAgo) (Fin 0, Fin 0) transactions
      in \<lparr>income = fst acc, expenses = snd acc, net = js_sub (fst acc) (snd acc)\<rparr>)"

text \<open>
  The local time zone, as the run time consults it: the offset of local time from UTC
  in milliseconds at a UTC instant (\<^verbatim>\<open>LocalTZA(t, true)\<close>), and the offset with
  which a local time value is read back as a UTC instant (\<^verbatim>\<open>LocalTZA(t, false)\<close>).
  Both may change with the date, as they do under daylight saving.
\<close>

record zone =
  offset_at_utc :: "int \<Rightarrow> int"
  offset_at_local :: "int \<Rightarrow> int"

text \<open>
  \<^verbatim>\<open>d.setHours(h, m, s, ms)\<close>: the instant is taken to local time, the time within
  its local calendar day is replaced, and the local time value is read back as a UTC
  instant. A local time value counts 86400000 ms for each calendar day; how long the
  day lasts in UTC follows from the two offsets.
\<close>

definition setHours :: "zone \<Rightarrow> int \<Rightarrow> int \<Rightarrow> int \<Rightarrow> int \<Rightarrow> int \<Rightarrow> int" where
  "setHours tz d h m s ms =
     (let t = d + offset_at_utc tz d;
          date = (t div msPerDay) * msPerDay + h * 3600000 + m * 60000 + s * 1000 + ms
      in date - offset_at_local tz date)"

definition forecast_body :: "int \<Rightarrow> int \<Rightarrow> jsnum \<times> jsnum \<Rightarrow> transaction \<Rightarrow> jsnum \<times> jsnum" where
  "forecast_body today thirtyDaysFromNow acc t =
     (if status t = ''forecasted'' \<and> truthy_date (date t) \<and> toDate (date t) \<noteq> None
      then (let forecastDate = the (toDate (date t))
            in if forecastDate \<ge> today \<and> forecastDate \<le> thirtyDaysFromNow
               then (if ttype t = ''income'' then (js_add (fst acc) (or_zero (amount t)), snd acc)
                     else if ttype t = ''expense'' then (fst acc, js_add (snd acc) (or_zero (amount t)))
                     else acc)
               else acc)
      else acc)"

text \<open>
  The function reads the clock twice (\<^verbatim>\<open>new Date()\<close> and \<^verbatim>\<open>Date.now()\<close>); both
  reads are the one instant \<^verbatim>\<open>now\<close> here.
\<close>

definition getForecastCashFlowForNext30Days :: "zone \<Rightarrow> int \<Rightarrow> transaction list \<Rightarrow> cash_flow" where
  "getForecastCashFlowForNext30Days tz now transactions =
     (let today = setHours tz now 0 0 0 0;
          thirtyDaysFromNow = setHours tz (now + 30 * 24 * 60 * 60 * 1000) 23 59 59 999;
          acc = foldl (forecast_body today thirtyDaysFromNow) (Fin 0, Fin 0) transactions
      in \<lparr>income = fst acc, expenses = snd acc, net = js_sub (fst acc) (snd acc)\<rparr>)"

subsection \<open>The metrics in the words of the specification\<close>

text \<open>The sum of the amounts of a list, an absent amount counting as zero, from left to right.\<close>

definition sum_amounts :: "transaction list \<Rightarrow> jsnum" where
  "sum_amounts ts = foldl (\<lambda>acc t. js_add acc (or_zero (amount t))) (Fin 0) ts"

definition in_trailing_window :: "int \<Rightarrow> transaction \<Rightarrow> bool" where
  "in_trailing_window now t =
     (status t = ''actual'' \<and>
      (case date t of Timestamp ms \<Rightarrow> now - 30 * msPerDay \<le> ms | _ \<Rightarrow> False))"

definition actualCashFlow_spec :: "int \<Rightarrow> transaction list \<Rightarrow> cash_flow" where
  "actualCashFlow_spec now ts =
     (let w = filter (in_trailing_window now) ts;
          i = sum_amounts (filter (\<lambda>t. ttype t = ''income'') w);
          e = sum_amounts (filter (\<lambda>t. ttype t = ''expense'') w)
      in \<lparr>income = i, expenses = e, net = js_sub i e\<rparr>)"

text \<open>
  The start and the end of the local calendar day of an instant: the local times
  00:00:00.000 and 23:59:59.999 of that day, as UTC instants.
\<close>

definition local_day :: "zone \<Rightarrow> int \<Rightarrow> int" where
  "local_day tz d = (d + offset_at_utc tz d) div msPerDay"

definition local_to_utc :: "zone \<Rightarrow> int \<Rightarrow> int" where
  "local_to_utc tz l = l - offset_at_local tz l"

definition startOfLocalDay :: "zone \<Rightarrow> int \<Rightarrow> int" where
  "startOfLocalDay tz d = local_to_utc tz (local_day tz d * msPerDay)"

definition endOfLocalDay :: "zone \<Rightarrow> int \<Rightarrow> int" where
  "endOfLocalDay tz d = local_to_utc tz (local_day tz d * msPerDay + (msPerDay - 1))"

text \<open>
  A condition on the zone, met by every zone in use (their offsets lie between twelve
  hours behind and fourteen hours ahead of UTC): no offset is more than a day.
\<close>

definition bounded_zone :: "zone \<Rightarrow> bool" where
  "bounded_zone tz =
     (\<forall>t. \<bar>offset_at_utc tz t\<bar> \<le> msPerDay \<and> \<bar>offset_at_local tz t\<bar> \<le> msPerDay)"

definition in_forward_window :: "zone \<Rightarrow> int \<Rightarrow> transaction \<Rightarrow> bool" where
  "in_forward_window tz now t =
     (status t = ''forecasted'' \<and>
      (case date t of
         Timestamp ms \<Rightarrow> startOfLocalDay tz now \<le> ms \<and> ms \<le> endOfLocalDay tz (now + 30 * msPerDay)
       | _ \<Rightarrow> False))"

definition forecastCashFlow_spec :: "zone \<Rightarrow> int \<Rightarrow> transaction list \<Rightarrow> cash_flow" where
  "forecastCashFlow_spec tz now ts =
     (let w = filter (in_forward_window tz now) ts;
          i = sum_amounts (filter (\<lambda>t. ttype t = ''income'') w);
          e = sum_amounts (filter (\<lambda>t. ttype t = ''expense'') w)
      in \<lparr>income = i, expenses = e, net = js_sub i e\<rparr>)"

text \<open>The guard of the trailing window, as the source writes it.\<close>

definition actual_guard :: "int \<Rightarrow> transaction \<Rightarrow> bool" where
  "actual_guard c t = (status t = ''actual'' \<and> truthy_date (date t) \<and> toDate (date t) \<noteq> None
         \<and> the (toDate (date t)) \<ge> c)"

definition forecast_guard :: "int \<Rightarrow> int \<Rightarrow> transaction \<Rightarrow> bool" where
  "forecast_guard lo hi t = (status t = ''forecasted'' \<and> truthy_date (date t) \<and> toDate (date t) \<noteq> None
         \<and> the (toDate (date t)) \<ge> lo \<and> the (toDate (date t)) \<le> hi)"

section \<open>Strings to numbers\<close>

text \<open>
  The text of an input field is a JavaScript string: a sequence of UTF-16 code units,
  each a natural number. \<^verbatim>\<open>js\<close> gives the string of an ASCII literal.
\<close>

type_synonym js_string = "nat list"

definition js :: "string \<Rightarrow> js_string" where
  "js s = map of_char s"

text \<open>
  The white space that \<^verbatim>\<open>trim\<close>, \<^verbatim>\<open>Number\<close> and \<^verbatim>\<open>parseFloat\<close> strip: the
  code points of \<^verbatim>\<open>WhiteSpace\<close> (tab, vertical tab, form feed, the byte order mark
  U+FEFF and the space separators U+0020, U+00A0, U+1680, U+2000 to U+200A, U+202F,
  U+205F, U+3000) and of \<^verbatim>\<open>LineTerminator\<close> (line feed, carriage return, U+2028,
  U+2029). Each is one code unit.
\<close>

definition is_ws :: "nat \<Rightarrow> bool" where
  "is_ws c =
     (c \<in> set [0x0009, 0x000A, 0x000B, 0x000C, 0x000D, 0x0020, 0x00A0, 0x1680, 0x2028, 0x2029,
                0x202F, 0x205F, 0x3000, 0xFEFF]
      \<or> (0x2000 \<le> c \<and> c \<le> 0x200A))"

definition trim_start :: "js_string \<Rightarrow> js_string" where
  "trim_start s = dropWhile is_ws s"

text \<open>\<^verbatim>\<open>s.trim()\<close>.\<close>

definition trim :: "js_string \<Rightarrow> js_string" where
  "trim s = rev (dropWhile is_ws (rev (dropWhile is_ws s)))"

text \<open>The decimal digits \<^verbatim>\<open>0\<close> to \<^verbatim>\<open>9\<close>.\<close>

definition is_digit :: "nat \<Rightarrow> bool" where
  "is_digit c = (0x30 \<le> c \<and> c \<le> 0x39)"

text \<open>The value of a hexadecimal digit: \<^verbatim>\<open>0\<close> to \<^verbatim>\<open>9\<close>, \<^verbatim>\<open>a\<close> to \<^verbatim>\<open>f\<close>, \<^verbatim>\<open>A\<close> to \<^verbatim>\<open>F\<close>.\<close>

definition hex_val :: "nat \<Rightarrow> nat option" where
  "hex_val c =
     (if 0x30 \<le> c \<and> c \<le> 0x39 then Some (c - 0x30)
      else if 0x61 \<le> c \<and> c \<le> 0x66 then Some (c - 0x61 + 10)
      else if 0x41 \<le> c \<and> c \<le> 0x46 then Some (c - 0x41 + 10)
      else None)"

text \<open>The value of a digit string in a base; \<^verbatim>\<open>None\<close> when a character is no digit of that base.\<close>

fun digits_value :: "nat \<Rightarrow> nat \<Rightarrow> js_string \<Rightarrow> nat option" where
  "digits_value base acc [] = Some acc"
| "digits_value base acc (c # cs) =
     (case hex_val c of
        None \<Rightarrow> None
      | Some d \<Rightarrow> if d < base then digits_value base (acc * base + d) cs else None)"

text \<open>
  An optional exponent part at the head of a string: the power of ten and the rest.
  Without digits after the indicator there is no exponent part and nothing is consumed.
\<close>

definition exponent_part :: "js_string \<Rightarrow> int \<times> js_string" where
  "exponent_part s =
     (case s of
        [] \<Rightarrow> (0, s)
      | c # r \<Rightarrow>
          if c = of_char CHR ''e'' \<or> c = of_char CHR ''E'' then
            (let neg = (r \<noteq> [] \<and> hd r = of_char CHR ''-'');
                 r' = (if r \<noteq> [] \<and> (hd r = of_char CHR ''+'' \<or> hd r = of_char CHR ''-'')
                       then tl r else r);
                 ds = takeWhile is_digit r'
             in if ds = [] then (0, s)
                else (let n = int (the (digits_value 10 0 ds))
                      in (if neg then - n else n, dropWhile is_digit r')))
          else (0, s))"

definition scale10 :: "real \<Rightarrow> int \<Rightarrow> real" where
  "scale10 m e = (if e \<ge> 0 then m * 10 ^ nat e else m / 10 ^ nat (- e))"

text \<open>
  The longest prefix that is a \<^verbatim>\<open>StrUnsignedDecimalLiteral\<close>
  (\<^verbatim>\<open>Infinity\<close>, \<^verbatim>\<open>12\<close>, \<^verbatim>\<open>12.\<close>, \<^verbatim>\<open>12.5\<close>, \<^verbatim>\<open>.5\<close>, each but the first
  with an optional exponent): its mathematical value or infinity, and the rest of the
  string. \<^verbatim>\<open>None\<close> when no prefix is one.
\<close>

definition unsigned_decimal :: "js_string \<Rightarrow> ((real option) \<times> js_string) option" where
  "unsigned_decimal s =
     (if take 8 s = js ''Infinity'' then Some (None, drop 8 s)
      else
        (let ip = takeWhile is_digit s;
             r1 = dropWhile is_digit s;
             dot = (r1 \<noteq> [] \<and> hd r1 = of_char CHR ''.'');
             fp = (if dot then takeWhile is_digit (tl r1) else []);
             r2 = (if dot then dropWhile is_digit (tl r1) else r1)
         in if ip = [] \<and> fp = [] then None
            else
              (let m = real (the (digits_value 10 0 ip))
                       + real (the (digits_value 10 0 fp)) / 10 ^ length fp;
                   er = exponent_part r2
               in Some (Some (scale10 m (fst er)), snd er))))"

text \<open>The same for a \<^verbatim>\<open>StrDecimalLiteral\<close>, which may start with a sign; the value as a Number.\<close>

definition decimal_prefix :: "js_string \<Rightarrow> (jsnum \<times> js_string) option" where
  "decimal_prefix s =
     (let neg = (s \<noteq> [] \<and> hd s = of_char CHR ''-'');
          u = (if s \<noteq> [] \<and> (hd s = of_char CHR ''+'' \<or> hd s = of_char CHR ''-'') then tl s else s)
      in case unsigned_decimal u of
           None \<Rightarrow> None
         | Some (None, r) \<Rightarrow> Some (if neg then NegInf else PosInf, r)
         | Some (Some v, r) \<Rightarrow> Some (number_value (if neg then - v else v), r))"

text \<open>The global \<^verbatim>\<open>parseFloat\<close> on a string.\<close>

definition parseFloat :: "js_string \<Rightarrow> jsnum" where
  "parseFloat s = (case decimal_prefix (trim_start s) of None \<Rightarrow> NaN | Some (v, r) \<Rightarrow> v)"

text \<open>A \<^verbatim>\<open>NonDecimalIntegerLiteral\<close>: \<^verbatim>\<open>0x\<close>, \<^verbatim>\<open>0o\<close> or \<^verbatim>\<open>0b\<close> and digits of the base.\<close>

definition non_decimal :: "js_string \<Rightarrow> jsnum" where
  "non_decimal s =
     (case s of
        z # b # ds \<Rightarrow>
          (let base = (if b = of_char CHR ''x'' \<or> b = of_char CHR ''X'' then 16
                       else if b = of_char CHR ''o'' \<or> b = of_char CHR ''O'' then 8
                       else if b = of_char CHR ''b'' \<or> b = of_char CHR ''B'' then 2 else (0::nat))
           in if z = of_char CHR ''0'' \<and> base \<noteq> 0 \<and> ds \<noteq> [] then
                (case digits_value base 0 ds of None \<Rightarrow> NaN | Some n \<Rightarrow> number_value (real n))
              else NaN)
      | _ \<Rightarrow> NaN)"

text \<open>
  The conversion of a string to a number (\<^verbatim>\<open>Number(s)\<close>, which \<^verbatim>\<open>isNaN(s)\<close>
  applies first): the whole trimmed string must be a numeric literal; the empty string
  is zero.
\<close>

definition toNumber :: "js_string \<Rightarrow> jsnum" where
  "toNumber s =
     (let t = trim s
      in if t = [] then Fin 0
         else (case decimal_prefix t of
                 Some (v, []) \<Rightarrow> v
               | _ \<Rightarrow> non_decimal t))"

section \<open>Variant 1: adding a transaction (src/App.js)\<close>




text \<open>The action a modal carries; the notices of \<^verbatim>\<open>handleAddTransaction\<close> carry none.\<close>

datatype modal_action = DeleteTransaction string

text \<open>
  The state of the component that the handlers below read and write. \<^verbatim>\<open>db\<close> tells
  whether the Firestore handle is set; \<^verbatim>\<open>isInitialAuthAttempt\<close> is the current
  value of the ref of that name. The form inputs \<^verbatim>\<open>amount\<close>, \<^verbatim>\<open>category\<close>,
  \<^verbatim>\<open>type\<close>, \<^verbatim>\<open>transactionStatus\<close> and \<^verbatim>\<open>transactionDate\<close> carry the prefix
  \<^verbatim>\<open>st_\<close>.
\<close>

record app_state =
  db :: bool
  userId :: "string option"
  userEmail :: "string option"
  isAuthReady :: bool
  transactions :: "transaction list"
  st_amount :: js_string
  st_category :: js_string
  st_type :: string
  st_transactionStatus :: string
  st_transactionDate :: js_string
  loading :: bool
  error :: "string option"
  showModal :: bool
  modalMessage :: string
  modalAction :: "modal_action option"
  authError :: "string option"
  isInitialAuthAttempt :: bool

text \<open>The state after the \<^verbatim>\<open>useState\<close> and \<^verbatim>\<open>useRef\<close> initialisers.\<close>

definition initial_state :: app_state where
  "initial_state =
     \<lparr>db = False, userId = None, userEmail = None, isAuthReady = False, transactions = [],
      st_amount = [], st_category = [], st_type = ''expense'', st_transactionStatus = ''actual'',
      st_transactionDate = [], loading = True, error = None, showModal = False,
      modalMessage = '''', modalAction = None, authError = None, isInitialAuthAttempt = True\<rparr>"

text \<open>Truthiness of a value that is \<^verbatim>\<open>null\<close> or a string.\<close>

definition truthy_str :: "string option \<Rightarrow> bool" where
  "truthy_str v = (case v of None \<Rightarrow> False | Some s \<Rightarrow> s \<noteq> [])"




section \<open>Variant 1: the authentication listener (src/App.js)\<close>

datatype auth_call = SignInWithCustomToken string | SignInAnonymously

text \<open>The user a notification carries: \<^verbatim>\<open>uid\<close> and \<^verbatim>\<open>email\<close>.\<close>

type_synonym auth_user = "string \<times> string option"

text \<open>
  The callback given to \<^verbatim>\<open>onAuthStateChanged\<close>, from its start to the point where
  it returns or suspends at the \<^verbatim>\<open>await\<close> of a sign-in.
  \<^verbatim>\<open>initialAuthToken\<close> is the global of that name. The result is the new state and
  the sign-in calls issued; a call issued leaves the callback suspended.
\<close>

definition authStateChanged ::
    "string option \<Rightarrow> auth_user option \<Rightarrow> app_state \<Rightarrow> app_state \<times> auth_call list" where
  "authStateChanged initialAuthToken user st =
     (case user of
        Some u \<Rightarrow>
          (st\<lparr>userId := Some (fst u), userEmail := snd u, isAuthReady := True,
              loading := False, authError := None\<rparr>, [])
      | None \<Rightarrow>
          (let st1 = st\<lparr>userId := None, userEmail := None, isAuthReady := False, loading := False\<rparr>
           in if isInitialAuthAttempt st1 then
                (st1, [if truthy_str initialAuthToken
                       then SignInWithCustomToken (the initialAuthToken)
                       else SignInAnonymously])
              else (st1\<lparr>loading := False\<rparr>, [])))"

text \<open>
  The rest of a suspended callback, run when the awaited sign-in settles: the
  \<^verbatim>\<open>catch\<close> block when it is rejected, and the \<^verbatim>\<open>finally\<close> block, which
  clears the flag.
\<close>

definition signInSettled :: "bool \<Rightarrow> app_state \<Rightarrow> app_state" where
  "signInSettled signIn_ok st =
     (let st1 = (if signIn_ok then st
                 else st\<lparr>authError := Some ''Failed to auto-sign in. Please log in or register.''\<rparr>)
      in st1\<lparr>isInitialAuthAttempt := False, isAuthReady := False, loading := False\<rparr>)"

text \<open>
  What happens to the listener: a notification of the identity provider, carrying the
  user or \<^verbatim>\<open>null\<close>, or the settling of a sign-in that a callback awaits, resolved
  or rejected. Notifications may arrive while a callback is suspended.
\<close>

datatype auth_event = Notify "auth_user option" | Settle bool

text \<open>
  The listener over a sequence of events, from a state and the number of callbacks
  suspended at a sign-in, collecting the sign-in calls in order. A \<^verbatim>\<open>Settle\<close> with
  no callback suspended does not happen and changes nothing.
\<close>

fun run_auth ::
    "string option \<Rightarrow> auth_event list \<Rightarrow> app_state \<times> nat \<Rightarrow> (app_state \<times> nat) \<times> auth_call list" where
  "run_auth tok [] c = (c, [])"
| "run_auth tok (Notify user # evs) c =
     (let r = authStateChanged tok user (fst c);
          r' = run_auth tok evs (fst r, snd c + length (snd r))
      in (fst r', snd r @ snd r'))"
| "run_auth tok (Settle ok # evs) c =
     (if snd c = 0 then run_auth tok evs c
      else run_auth tok evs (signInSettled ok (fst c), snd c - 1))"

section \<open>Variant 2 (the second source file)\<close>

text \<open>
  The module's Firebase handles \<^verbatim>\<open>db\<close> and \<^verbatim>\<open>auth\<close> are taken to be set (the
  initialisation at load time has succeeded), and the paths that
  \<^verbatim>\<open>getUserDataPath\<close> builds to name collections.

  A JSON value as the run time holds it after parsing; an object lists its members,
  each name once.
\<close>

datatype json = JNull | JBool bool | JNum jsnum | JStr string | JArr "json list"
  | JObj "(string \<times> json) list"

text \<open>\<^verbatim>\<open>new Date(s)\<close> for a string, kept as the string. Every object is truthy.\<close>

datatype js_Date = Date js_string

definition truthy_Date :: "js_Date \<Rightarrow> bool" where
  "truthy_Date d = True"

record item_data =
  it_date :: js_Date
  it_amount :: jsnum
  it_type :: string
  it_description :: js_string

text \<open>
  The calls on the document store: \<^verbatim>\<open>addDoc(collection, data)\<close> with the path of
  the collection, and \<^verbatim>\<open>setDoc(doc(collection, id), data, {merge})\<close> with the
  path, the document id, the fields written and the merge option.
\<close>

datatype v2_store_call =
    V2_addDoc string item_data
  | V2_setDoc string string "(string \<times> jsnum) list" bool

text \<open>
  What \<^verbatim>\<open>setDoc\<close> does to the stored document (a map from field names to values):
  with \<^verbatim>\<open>merge\<close> the fields written replace or extend the stored ones, without it the
  document is replaced.
\<close>

definition apply_setDoc :: "(string \<rightharpoonup> jsnum) \<Rightarrow> (string \<times> jsnum) list \<Rightarrow> bool \<Rightarrow> (string \<rightharpoonup> jsnum)" where
  "apply_setDoc stored data merge = (if merge then stored ++ map_of data else map_of data)"

text \<open>
  The state of the component. \<^verbatim>\<open>v2_user\<close> is the \<^verbatim>\<open>uid\<close> of \<^verbatim>\<open>user\<close>, if any;
  \<^verbatim>\<open>v2_forecastItems\<close> is whatever value the last forecast parsed to.
\<close>

record v2_state =
  v2_user :: "string option"
  v2_budget :: jsnum
  v2_income :: jsnum
  v2_expense :: jsnum
  v2_forecastItems :: json
  v2_isAuthReady :: bool
  v2_message :: string
  v2_isLoading :: bool

definition v2_initial_state :: v2_state where
  "v2_initial_state =
     \<lparr>v2_user = None, v2_budget = Fin 0, v2_income = Fin 0, v2_expense = Fin 0,
      v2_forecastItems = JArr [], v2_isAuthReady = False, v2_message = '''', v2_isLoading = False\<rparr>"

text \<open>The fields of the submitted form, as \<^verbatim>\<open>formData.get\<close> returns them.\<close>

record form_data =
  fd_date :: js_string
  fd_amount :: js_string
  fd_type :: string
  fd_description :: js_string

text \<open>\<^verbatim>\<open>showMessage\<close>; the timer that clears the message later is not modelled.\<close>

definition showMessage :: "string \<Rightarrow> v2_state \<Rightarrow> v2_state" where
  "showMessage text st = st\<lparr>v2_message := text\<rparr>"

text \<open>The path of the collection that \<^verbatim>\<open>getUserDataPath\<close> addresses.\<close>

definition getUserDataPath :: "string \<Rightarrow> v2_state \<Rightarrow> string \<Rightarrow> string" where
  "getUserDataPath appId st collectionName =
     (let userId = (if truthy_str (v2_user st) then the (v2_user st) else ''anonymous'')
      in ''artifacts/'' @ appId @ ''/users/'' @ userId @ ''/'' @ collectionName)"

text \<open>
  \<^verbatim>\<open>handleAddItem\<close> on a submitted form. \<^verbatim>\<open>addDoc_ok\<close> and \<^verbatim>\<open>setDoc_ok\<close> tell
  whether the store resolves the two writes. The result is the new state and the calls
  issued on the store, in order. Resetting the form touches no state.
\<close>

definition handleAddItem ::
    "string \<Rightarrow> bool \<Rightarrow> bool \<Rightarrow> form_data \<Rightarrow> v2_state \<Rightarrow> v2_state \<times> v2_store_call list" where
  "handleAddItem appId addDoc_ok setDoc_ok form st =
     (let date = Date (fd_date form);
          amount = parseFloat (fd_amount form);
          type = fd_type form;
          description = fd_description form
      in if isNaN amount \<or> js_le amount (Fin 0) \<or> description = [] \<or> \<not> truthy_Date date then
           (showMessage ''Please enter a valid amount and description.'' st, [])
         else
           (let st1 = st\<lparr>v2_isLoading := True\<rparr>;
                add = V2_addDoc (getUserDataPath appId st ''items'')
                        \<lparr>it_date = date, it_amount = amount, it_type = type,
                         it_description = description\<rparr>
            in if \<not> addDoc_ok then
                 ((showMessage ''Error adding item.'' st1)\<lparr>v2_isLoading := False\<rparr>, [add])
               else
                 (let upd = V2_setDoc (getUserDataPath appId st ''budgets'') ''summary''
                              [(''budget'', if type = ''income'' then js_add (v2_budget st) amount
                                            else js_sub (v2_budget st) amount),
                               (''income'', if type = ''income'' then js_add (v2_income st) amount
                                            else v2_income st),
                               (''expense'', if type = ''expense'' then js_add (v2_expense st) amount
                                             else v2_expense st)]
                              True
                  in if \<not> setDoc_ok then
                       ((showMessage ''Error adding item.'' st1)\<lparr>v2_isLoading := False\<rparr>, [add, upd])
                     else
                       ((showMessage ''Item added successfully!'' st1)\<lparr>v2_isLoading := False\<rparr>,
                        [add, upd]))))"

subsection \<open>The forecast\<close>

text \<open>
  Optional chaining on a value that may be \<^verbatim>\<open>undefined\<close> (\<^verbatim>\<open>None\<close>):
  \<^verbatim>\<open>v?.name\<close> for the four member names the handler reads, none of which a string,
  a number, a boolean or an array has.
\<close>

definition get_member :: "string \<Rightarrow> json option \<Rightarrow> json option" where
  "get_member name v = (case v of Some (JObj kvs) \<Rightarrow> map_of kvs name | _ \<Rightarrow> None)"

text \<open>\<^verbatim>\<open>v?.[0]\<close>.\<close>

definition get_first :: "json option \<Rightarrow> json option" where
  "get_first v =
     (case v of
        Some (JArr xs) \<Rightarrow> (case xs of [] \<Rightarrow> None | x # r \<Rightarrow> Some x)
      | Some (JObj kvs) \<Rightarrow> map_of kvs ''0''
      | Some (JStr s) \<Rightarrow> (case s of [] \<Rightarrow> None | c # r \<Rightarrow> Some (JStr [c]))
      | _ \<Rightarrow> None)"

definition truthy_json :: "json option \<Rightarrow> bool" where
  "truthy_json v =
     (case v of
        None \<Rightarrow> False
      | Some JNull \<Rightarrow> False
      | Some (JBool b) \<Rightarrow> b
      | Some (JNum n) \<Rightarrow> truthy_num n
      | Some (JStr s) \<Rightarrow> s \<noteq> []
      | Some (JArr xs) \<Rightarrow> True
      | Some (JObj kvs) \<Rightarrow> True)"

text \<open>\<^verbatim>\<open>result?.candidates?.[0]?.content?.parts?.[0]?.text\<close>.\<close>

definition response_text :: "json \<Rightarrow> json option" where
  "response_text result =
     get_member ''text'' (get_first (get_member ''parts'' (get_member ''content''
       (get_first (get_member ''candidates'' (Some result))))))"

text \<open>
  How the request ends: \<^verbatim>\<open>fetch\<close> rejects, the body is not JSON
  (\<^verbatim>\<open>response.json()\<close> rejects), or the body parses to a value.
\<close>

datatype fetch_result = FetchRejected | BodyNotJson | Body json

text \<open>What the \<^verbatim>\<open>catch\<close> block of \<^verbatim>\<open>handleForecast\<close> receives.\<close>

datatype forecast_error = FetchFailed | BodyParseFailed | NoContent | TextParseFailed

text \<open>
  \<^verbatim>\<open>handleForecast\<close>. \<^verbatim>\<open>JSON_parse\<close> is the run time's \<^verbatim>\<open>JSON.parse\<close> on the
  value found at the text path (\<^verbatim>\<open>None\<close> when it throws) and \<^verbatim>\<open>response\<close> is
  how the request ends; the prompt sent plays no part in what follows. The result is
  the new state and the error caught, if any.
\<close>

definition handleForecast ::
    "(json \<Rightarrow> json option) \<Rightarrow> fetch_result \<Rightarrow> v2_state \<Rightarrow> v2_state \<times> forecast_error option" where
  "handleForecast JSON_parse response st =
     (let st1 = st\<lparr>v2_isLoading := True\<rparr>;
          failed = (\<lambda>e. ((showMessage ''Failed to generate forecast.'' st1)\<lparr>v2_isLoading := False\<rparr>,
                        Some e))
      in case response of
           FetchRejected \<Rightarrow> failed FetchFailed
         | BodyNotJson \<Rightarrow> failed BodyParseFailed
         | Body result \<Rightarrow>
             (let text = response_text result
              in if truthy_json text then
                   (case JSON_parse (the text) of
                      None \<Rightarrow> failed TextParseFailed
                    | Some parsed \<Rightarrow>
                        ((showMessage ''Forecast generated successfully!''
                            (st1\<lparr>v2_forecastItems := parsed\<rparr>))\<lparr>v2_isLoading := False\<rparr>, None))
                 else failed NoContent))"

subsection \<open>The authentication listener\<close>

text \<open>
  The callback given to \<^verbatim>\<open>onAuthStateChanged\<close>; a failed sign-in is only logged.
  The result is the new state and the sign-in calls issued.
\<close>

definition v2_authStateChanged ::
    "string option \<Rightarrow> string option \<Rightarrow> v2_state \<Rightarrow> v2_state \<times> auth_call list" where
  "v2_authStateChanged initialAuthToken currentUser st =
     (case currentUser of
        Some uid \<Rightarrow> (st\<lparr>v2_user := Some uid, v2_isAuthReady := True\<rparr>, [])
      | None \<Rightarrow>
          (st, [if truthy_str initialAuthToken
                then SignInWithCustomToken (the initialAuthToken)
                else SignInAnonymously]))"

fun v2_run_auth :: "string option \<Rightarrow> string option list \<Rightarrow> v2_state \<Rightarrow> v2_state \<times> auth_call list" where
  "v2_run_auth tok [] st = (st, [])"
| "v2_run_auth tok (u # evs) st =
     (let r = v2_authStateChanged tok u st;
          r' = v2_run_auth tok evs (fst r)
      in (fst r', snd r @ snd r'))"

section \<open>Example inputs\<close>

text \<open>Concrete transactions, states, forms and responses at which the theorems below are instantiated.\<close>

text \<open>22 October 2023, 18:40:00 UTC.\<close>

definition now0 :: int where "now0 = 1698000000000"

definition ex_salary_old :: transaction where
  "ex_salary_old = \<lparr>doc_id = ''t1'', amount = Some (Fin 100), category = ''Salary'', ttype = ''income'',
     status = ''actual'', date = Timestamp (now0 - 31 * msPerDay), createdAt = Timestamp (now0 - 31 * msPerDay)\<rparr>"

definition ex_groceries :: transaction where
  "ex_groceries = \<lparr>doc_id = ''t2'', amount = Some (Fin 40), category = ''Groceries'', ttype = ''expense'',
     status = ''actual'', date = Timestamp (now0 - 1000), createdAt = Timestamp (now0 - 1000)\<rparr>"

text \<open>
  A zone that leaves daylight saving time on 5 November 2023 at 06:00 UTC: four hours
  behind UTC before, five hours after. A local time that occurs twice is read with the
  offset before the change.
\<close>

definition tz0 :: zone where
  "tz0 = \<lparr>offset_at_utc = (\<lambda>t. if t < 1699164000000 then - 14400000 else - 18000000),
           offset_at_local = (\<lambda>l. if l < 1699149600000 then - 14400000 else - 18000000)\<rparr>"

definition ex_bonus_10d :: transaction where
  "ex_bonus_10d = \<lparr>doc_id = ''t3'', amount = Some (Fin 500), category = ''Bonus'', ttype = ''income'',
     status = ''forecasted'', date = Timestamp (now0 + 10 * msPerDay), createdAt = Timestamp now0\<rparr>"

definition ex_fee_10d :: transaction where
  "ex_fee_10d = \<lparr>doc_id = ''t6'', amount = Some (Fin 15), category = ''Fee'', ttype = ''expense'',
     status = ''forecasted'', date = Timestamp (now0 + 10 * msPerDay), createdAt = Timestamp now0\<rparr>"

definition ex_rent_40d :: transaction where
  "ex_rent_40d = \<lparr>doc_id = ''t4'', amount = Some (Fin 70), category = ''Rent'', ttype = ''expense'',
     status = ''forecasted'', date = Timestamp (now0 + 40 * msPerDay), createdAt = Timestamp now0\<rparr>"

text \<open>Entries dated at the last millisecond of the forward window of \<^verbatim>\<open>now0\<close> in \<^verbatim>\<open>tz0\<close>, and just after.\<close>

definition ex_last_ms :: transaction where
  "ex_last_ms = \<lparr>doc_id = ''t7'', amount = Some (Fin 5), category = ''Refund'', ttype = ''income'',
     status = ''forecasted'', date = Timestamp 1700629199999, createdAt = Timestamp now0\<rparr>"

definition ex_too_late :: transaction where
  "ex_too_late = \<lparr>doc_id = ''t8'', amount = Some (Fin 9), category = ''Refund'', ttype = ''income'',
     status = ''forecasted'', date = Timestamp 1700629200000, createdAt = Timestamp now0\<rparr>"

definition ex_pending :: transaction where
  "ex_pending = \<lparr>doc_id = ''t5'', amount = Some (Fin 25), category = ''Gift'', ttype = ''income'',
     status = ''actual'', date = Null, createdAt = Null\<rparr>"



definition ex_events :: "auth_event list" where
  "ex_events = [Notify (Some (''anon1'', None)), Notify None,
     Notify (Some (''u1'', Some ''a@b.c'')), Notify None]"







definition ex_form_valid :: form_data where
  "ex_form_valid = \<lparr>fd_date = js ''2024-01-15'', fd_amount = js ''50'', fd_type = ''income'',
     fd_description = js ''Rent''\<rparr>"


definition ex_state_v2 :: v2_state where
  "ex_state_v2 = v2_initial_state\<lparr>v2_user := Some ''u1'', v2_isAuthReady := True,
     v2_budget := Fin 200, v2_income := Fin 300, v2_expense := Fin 100\<rparr>"

text \<open>A parser that agrees with \<^verbatim>\<open>JSON.parse\<close> on the texts of the examples below.\<close>

definition ex_JSON_parse :: "json \<Rightarrow> json option" where
  "ex_JSON_parse v = (if v = JStr ''[]'' then Some (JArr [])
                      else if v = JStr ''[1]'' then Some (JArr [JNum (Fin 1)])
                      else None)"

definition ex_response :: "string \<Rightarrow> json" where
  "ex_response text =
     JObj [(''candidates'', JArr [JObj [(''content'', JObj [(''parts'', JArr [JObj [(''text'', JStr text)]])])]])]"

definition ex_state_forecast :: v2_state where
  "ex_state_forecast = v2_initial_state\<lparr>v2_user := Some ''u1'', v2_isAuthReady := True,
     v2_forecastItems := JArr [JNum (Fin 7)]\<rparr>"

section \<open>Properties of the derived metrics\<close>

subsection \<open>Numbers that round to themselves\<close>

lemma floor_log2_floor:
  assumes "1 \<le> x"
  shows "\<lfloor>log 2 (of_int \<lfloor>x\<rfloor>)\<rfloor> = \<lfloor>log 2 x\<rfloor>"
proof -
  define k where "k = \<lfloor>log 2 x\<rfloor>"
  have x0: "0 < x" using assms by simp
  have k0: "0 \<le> k" using assms by (simp add: k_def)
  have "2 powr k \<le> x \<and> x < 2 powr (k + 1)"
    using floor_log_eq_powr_iff [of x 2 k] x0 by (simp add: k_def)
  then have b: "2 ^ nat k \<le> x" "x < 2 ^ nat (k + 1)"
    using k0 by (simp_all add: powr_realpow [symmetric])
  have "of_int (2 ^ nat k) \<le> x" using b(1) by simp
  then have "2 ^ nat k \<le> \<lfloor>x\<rfloor>" by (simp only: le_floor_iff)
  then have l: "(2::real) ^ nat k \<le> of_int \<lfloor>x\<rfloor>"
    by (metis of_int_le_iff of_int_numeral of_int_power)
  have u: "of_int \<lfloor>x\<rfloor> < (2::real) ^ nat (k + 1)"
    using b(2) by linarith
  have p: "0 < (of_int \<lfloor>x\<rfloor> :: real)" using assms by simp
  have "2 powr k \<le> of_int \<lfloor>x\<rfloor> \<and> of_int \<lfloor>x\<rfloor> < 2 powr (k + 1)"
    using l u k0 by (simp add: powr_realpow [symmetric])
  then show ?thesis
    using floor_log_eq_powr_iff [of "of_int \<lfloor>x\<rfloor>" 2 k] p by (simp add: k_def)
qed

lemma binade_ge1:
  assumes "1 \<le> x"
  shows "binade x = \<lfloor>log 2 x\<rfloor>"
proof -
  have f: "0 < \<lfloor>x\<rfloor>" using assms by linarith
  then show ?thesis
    using assms floor_log2_floor [OF assms] by (simp add: binade_def bitlen_alt_def)
qed


lemma binade_lt1:
  assumes "0 < x" and "x < 1"
  shows "binade x = \<lfloor>log 2 x\<rfloor>"
proof -
  define n where "n = \<lceil>1 / x\<rceil>"
  define k where "k = bitlen (n - 1)"
  have y: "1 < 1 / x" using assms by simp
  then have n2: "2 \<le> n" unfolding n_def by linarith
  then have m: "0 < n - 1" by simp
  have k1: "1 \<le> k" using m by (simp add: k_def bitlen_alt_def)
  have bb: "2 ^ nat (k - 1) \<le> n - 1" "n - 1 < 2 ^ nat k"
    using bitlen_bounds [OF m] by (simp_all add: k_def)
  have up: "1 / x \<le> 2 ^ nat k"
  proof -
    have "n \<le> 2 ^ nat k" using bb(2) by simp
    then have "(of_int n :: real) \<le> 2 ^ nat k"
      by (metis of_int_le_iff of_int_numeral of_int_power)
    moreover have "1 / x \<le> of_int n" unfolding n_def by linarith
    ultimately show ?thesis by linarith
  qed
  have lo: "2 ^ nat (k - 1) < 1 / x"
  proof -
    have "(of_int (n - 1) :: real) < 1 / x" unfolding n_def by linarith
    moreover have "(2::real) ^ nat (k - 1) \<le> of_int (n - 1)"
      using bb(1) by (metis of_int_le_iff of_int_numeral of_int_power)
    ultimately show ?thesis by linarith
  qed
  have a: "2 powr (- k) \<le> x"
  proof -
    have "1 \<le> x * 2 ^ nat k" using up assms(1) by (simp add: field_simps)
    then have "inverse (2 ^ nat k) \<le> x" by (simp add: field_simps)
    moreover have "(2::real) powr (- k) = inverse (2 ^ nat k)"
      using k1 by (simp add: powr_minus powr_realpow [symmetric])
    ultimately show ?thesis by simp
  qed
  have b: "x < 2 powr (- k + 1)"
  proof -
    have "x * 2 ^ nat (k - 1) < 1" using lo assms(1) by (simp add: field_simps)
    then have "x < inverse (2 ^ nat (k - 1))" by (simp add: field_simps)
    moreover have "(2::real) powr (- k + 1) = inverse (2 ^ nat (k - 1))"
    proof -
      have "(2::real) powr (- k + 1) = 2 powr (- real_of_int (k - 1))" by simp
      also have "\<dots> = inverse (2 powr (real_of_int (k - 1)))"
        by (rule powr_minus)
      also have "real_of_int (k - 1) = real (nat (k - 1))"
        using k1 by simp
      also have "inverse (2 powr (real (nat (k - 1)))) = inverse (2 ^ nat (k - 1))"
        by (simp add: powr_realpow)
      finally show ?thesis .
    qed
    ultimately show ?thesis by simp
  qed
  have "\<lfloor>log 2 x\<rfloor> = - k"
    using floor_log_eq_powr_iff [of x 2 "- k"] assms(1) a b by simp
  then show ?thesis
    using assms by (simp add: binade_def k_def n_def)
qed

lemma binade_log: "v \<noteq> 0 \<Longrightarrow> binade v = \<lfloor>log 2 \<bar>v\<bar>\<rfloor>"
proof -
  assume "v \<noteq> 0"
  then have p: "0 < \<bar>v\<bar>" by simp
  have e: "binade v = binade \<bar>v\<bar>" by (simp add: binade_def)
  show ?thesis
  proof (cases "1 \<le> \<bar>v\<bar>")
    case True
    then show ?thesis unfolding e by (rule binade_ge1)
  next
    case False
    then have "\<bar>v\<bar> < 1" by simp
    with p show ?thesis unfolding e by (rule binade_lt1)
  qed
qed


lemma round_half_even_int: "round_half_even (of_int j) = j"
  by (simp add: round_half_even_def)

lemma bitlen_small:
  assumes "0 < n" and "n < 2 ^ 53"
  shows "1 \<le> bitlen n" and "bitlen n \<le> 53"
proof -
  show "1 \<le> bitlen n" using assms(1) by (simp add: bitlen_alt_def)
  show "bitlen n \<le> 53" using assms(2) by (simp add: bitlen_le_iff_power)
qed

lemma number_value_pos_int:
  assumes "0 < n" and "n < 2 ^ 53"
  shows "number_value (of_int n) = Fin (of_int n)"
proof -
  let ?x = "of_int n :: real"
  have x2: "?x < 2 ^ 53" using assms(2) by (metis of_int_less_numeral_power_cancel_iff)
  define k where "k = binade ?x"
  have kb: "k = bitlen n - 1"
    using assms(1) by (simp add: k_def binade_def)
  have k: "0 \<le> k" "k \<le> 52"
    using bitlen_small [OF assms] by (simp_all add: kb)
  define e where "e = max (k - 52) (- 1074)"
  have e: "e = k - 52" using k by (simp add: e_def)
  define p where "p = nat (52 - k)"
  have pe: "(2::real) powi e = inverse (2 ^ p)"
    using k by (simp add: e p_def power_int_def power_one_over inverse_eq_divide)
  have q: "\<bar>?x\<bar> / 2 powi e = of_int (n * 2 ^ p)"
    using assms(1) by (simp add: pe divide_inverse)
  have m: "round_half_even (\<bar>?x\<bar> / 2 powi e) = n * 2 ^ p"
    unfolding q by (rule round_half_even_int)
  have r: "of_int (n * 2 ^ p) * (2::real) powi e = ?x"
    by (simp add: pe divide_inverse)
  have lt: "\<not> ?x \<ge> 2 ^ 1024"
  proof -
    have "(2::real) ^ 53 \<le> 2 ^ 1024" by (rule power_increasing) simp_all
    with x2 show ?thesis by linarith
  qed
  have nz: "?x \<noteq> 0" "?x > 0" using assms(1) by simp_all
  have E: "max (binade ?x - 52) (- 1074) = e"
    by (simp only: e_def k_def)
  show ?thesis
    using nz lt unfolding number_value_def Let_def E m r by simp
qed

lemma binade_minus: "binade (- v) = binade v"
  by (simp add: binade_def)

lemma number_value_neg: "number_value (- v) = (case number_value v of Fin r \<Rightarrow> Fin (- r)
    | PosInf \<Rightarrow> NegInf | NegInf \<Rightarrow> PosInf | NaN \<Rightarrow> NaN)"
  by (simp add: number_value_def binade_minus Let_def)

lemma number_value_int:
  assumes "\<bar>n\<bar> < 2 ^ 53"
  shows "number_value (of_int n) = Fin (of_int n)"
proof (cases "n = 0")
  case True
  then show ?thesis by (simp add: number_value_def)
next
  case False
  show ?thesis
  proof (cases "0 < n")
    case True
    with assms show ?thesis by (simp add: number_value_pos_int)
  next
    case neg: False
    with False assms have "0 < - n" "- n < 2 ^ 53" by simp_all
    then have "number_value (of_int (- n)) = Fin (of_int (- n))"
      by (rule number_value_pos_int)
    then have "number_value (- of_int n) = Fin (- of_int n)" by simp
    then show ?thesis
      by (simp add: number_value_neg split: jsnum.splits)
  qed
qed

lemma number_value_numeral:
  "\<bar>numeral w :: int\<bar> < 2 ^ 53 \<Longrightarrow> number_value (numeral w) = Fin (numeral w)"
  using number_value_int [of "numeral w"] by simp

lemma number_value_zero: "number_value 0 = Fin 0"
  by (simp add: number_value_def)

lemma number_value_one: "number_value 1 = Fin 1"
  using number_value_int [of 1] by simp

text \<open>
  The sum is rounded: \<^verbatim>\<open>0.1 + 0.2\<close> is \<^verbatim>\<open>0.30000000000000004\<close>, and adding
  \<^verbatim>\<open>0.1\<close>, \<^verbatim>\<open>0.2\<close> and \<^verbatim>\<open>0.3\<close> from the left gives
  \<^verbatim>\<open>0.6000000000000001\<close> where adding them from the right gives \<^verbatim>\<open>0.6\<close>.
\<close>

lemma js_add_rounds:
  "js_add (Fin (3602879701896397 / 2 ^ 55)) (Fin (3602879701896397 / 2 ^ 54)) =
     Fin (5404319552844596 / 2 ^ 54)"
  by code_simp

lemma js_add_not_associative:
  "js_add (js_add (Fin (3602879701896397 / 2 ^ 55)) (Fin (3602879701896397 / 2 ^ 54)))
          (Fin (5404319552844595 / 2 ^ 54)) = Fin (5404319552844596 / 2 ^ 53) \<and>
   js_add (Fin (3602879701896397 / 2 ^ 55))
          (js_add (Fin (3602879701896397 / 2 ^ 54)) (Fin (5404319552844595 / 2 ^ 54))) =
     Fin (5404319552844595 / 2 ^ 53)"
  by code_simp

lemmas number_simps = number_value_zero number_value_one number_value_numeral number_value_neg

subsection \<open>The loops as filtered sums\<close>

lemma actual_guard_window:
  "actual_guard (now - 30 * 24 * 60 * 60 * 1000) t = in_trailing_window now t"
  by (cases "date t") (simp_all add: actual_guard_def in_trailing_window_def truthy_date_def
      toDate_def msPerDay_def)

lemma actual_body_cases:
  "actual_body c (i, e) t =
     (if actual_guard c t \<and> ttype t = ''income'' then (js_add i (or_zero (amount t)), e)
      else if actual_guard c t \<and> ttype t = ''expense'' then (i, js_add e (or_zero (amount t)))
      else (i, e))"
  by (auto simp: actual_body_def actual_guard_def)

lemma foldl_actual_body:
  "foldl (actual_body c) (i, e) ts =
     (foldl (\<lambda>acc t. js_add acc (or_zero (amount t))) i
        (filter (\<lambda>t. actual_guard c t \<and> ttype t = ''income'') ts),
      foldl (\<lambda>acc t. js_add acc (or_zero (amount t))) e
        (filter (\<lambda>t. actual_guard c t \<and> ttype t = ''expense'') ts))"
proof (induction ts arbitrary: i e)
  case Nil
  show ?case by simp
next
  case (Cons t ts)
  show ?case
    by (simp add: actual_body_cases Cons.IH)
qed

lemma getActual_spec:
  "getActualCashFlowForLast30Days now ts = actualCashFlow_spec now ts"
proof -
  have "foldl (actual_body (now - 30 * 24 * 60 * 60 * 1000)) (Fin 0, Fin 0) ts =
        (sum_amounts (filter (\<lambda>t. in_trailing_window now t \<and> ttype t = ''income'') ts),
         sum_amounts (filter (\<lambda>t. in_trailing_window now t \<and> ttype t = ''expense'') ts))"
    unfolding foldl_actual_body actual_guard_window sum_amounts_def by (rule refl)
  then show ?thesis
    by (simp add: getActualCashFlowForLast30Days_def actualCashFlow_spec_def Let_def conj_commute)
qed

lemma setHours_start: "setHours tz d 0 0 0 0 = startOfLocalDay tz d"
  by (simp add: setHours_def startOfLocalDay_def local_to_utc_def local_day_def Let_def)

lemma setHours_end: "setHours tz d 23 59 59 999 = endOfLocalDay tz d"
proof -
  have m: "msPerDay - 1 = 86399999"
    by (simp add: msPerDay_def)
  have "x + 23 * 3600000 + 59 * 60000 + 59 * 1000 + 999 = x + 86399999" for x :: int
    by simp
  then show ?thesis
    unfolding setHours_def endOfLocalDay_def local_to_utc_def local_day_def Let_def m
    by (simp add: add.commute)
qed

lemma forecast_guard_window:
  "forecast_guard (setHours tz now 0 0 0 0)
     (setHours tz (now + 30 * 24 * 60 * 60 * 1000) 23 59 59 999) t = in_forward_window tz now t"
proof -
  have d: "now + 30 * 24 * 60 * 60 * 1000 = now + 30 * msPerDay"
    by (simp add: msPerDay_def)
  show ?thesis
    unfolding setHours_start setHours_end d
    by (cases "date t") (simp_all add: forecast_guard_def in_forward_window_def truthy_date_def toDate_def)
qed

lemma forecast_body_cases:
  "forecast_body lo hi (i, e) t =
     (if forecast_guard lo hi t \<and> ttype t = ''income'' then (js_add i (or_zero (amount t)), e)
      else if forecast_guard lo hi t \<and> ttype t = ''expense'' then (i, js_add e (or_zero (amount t)))
      else (i, e))"
  by (auto simp: forecast_body_def forecast_guard_def Let_def)

lemma foldl_forecast_body:
  "foldl (forecast_body lo hi) (i, e) ts =
     (foldl (\<lambda>acc t. js_add acc (or_zero (amount t))) i
        (filter (\<lambda>t. forecast_guard lo hi t \<and> ttype t = ''income'') ts),
      foldl (\<lambda>acc t. js_add acc (or_zero (amount t))) e
        (filter (\<lambda>t. forecast_guard lo hi t \<and> ttype t = ''expense'') ts))"
proof (induction ts arbitrary: i e)
  case Nil
  show ?case by simp
next
  case (Cons t ts)
  show ?case
    by (simp add: forecast_body_cases Cons.IH)
qed

lemma getForecast_spec:
  "getForecastCashFlowForNext30Days tz now ts = forecastCashFlow_spec tz now ts"
proof -
  have "foldl (forecast_body (setHours tz now 0 0 0 0)
            (setHours tz (now + 30 * 24 * 60 * 60 * 1000) 23 59 59 999)) (Fin 0, Fin 0) ts =
        (sum_amounts (filter (\<lambda>t. in_forward_window tz now t \<and> ttype t = ''income'') ts),
         sum_amounts (filter (\<lambda>t. in_forward_window tz now t \<and> ttype t = ''expense'') ts))"
    unfolding foldl_forecast_body forecast_guard_window sum_amounts_def by (rule refl)
  then show ?thesis
    by (simp add: getForecastCashFlowForNext30Days_def forecastCashFlow_spec_def Let_def conj_commute)
qed

lemma forecast_income:
  "income (getForecastCashFlowForNext30Days tz now ts) =
     foldl (\<lambda>acc x. js_add acc (or_zero (amount x))) (Fin 0)
       (filter (\<lambda>x. in_forward_window tz now x \<and> ttype x = ''income'') ts)"
  by (simp add: getForecast_spec forecastCashFlow_spec_def sum_amounts_def Let_def)

lemma forecast_expenses:
  "expenses (getForecastCashFlowForNext30Days tz now ts) =
     foldl (\<lambda>acc x. js_add acc (or_zero (amount x))) (Fin 0)
       (filter (\<lambda>x. in_forward_window tz now x \<and> ttype x = ''expense'') ts)"
  by (simp add: getForecast_spec forecastCashFlow_spec_def sum_amounts_def Let_def)

lemma forecast_net: 
  "net (getForecastCashFlowForNext30Days tz now ts) =
     js_sub (income (getForecastCashFlowForNext30Days tz now ts))
            (expenses (getForecastCashFlowForNext30Days tz now ts))"
  by (simp add: getForecastCashFlowForNext30Days_def Let_def)

subsection \<open>Day boundaries in a zone whose offsets stay within a day\<close>

lemma day_floor: "x - msPerDay < x div msPerDay * msPerDay \<and> x div msPerDay * msPerDay \<le> x"
proof -
  have "0 \<le> x mod msPerDay" and "x mod msPerDay < msPerDay"
    by (simp_all add: msPerDay_def)
  moreover have "x = x div msPerDay * msPerDay + x mod msPerDay"
    by simp
  ultimately show ?thesis by linarith
qed

lemma startOfLocalDay_le:
  assumes "bounded_zone tz"
  shows "startOfLocalDay tz d \<le> d + 2 * msPerDay"
proof -
  let ?l = "local_day tz d * msPerDay"
  have a: "\<bar>offset_at_utc tz d\<bar> \<le> msPerDay" and b: "\<bar>offset_at_local tz ?l\<bar> \<le> msPerDay"
    using assms by (simp_all add: bounded_zone_def)
  have "?l \<le> d + offset_at_utc tz d"
    using day_floor [of "d + offset_at_utc tz d"] by (simp add: local_day_def)
  with a b show ?thesis
    by (simp add: startOfLocalDay_def local_to_utc_def)
qed

lemma endOfLocalDay_ge:
  assumes "bounded_zone tz"
  shows "d - 2 * msPerDay \<le> endOfLocalDay tz d"
proof -
  let ?l = "local_day tz d * msPerDay + (msPerDay - 1)"
  have a: "\<bar>offset_at_utc tz d\<bar> \<le> msPerDay" and b: "\<bar>offset_at_local tz ?l\<bar> \<le> msPerDay"
    using assms by (simp_all add: bounded_zone_def)
  have "d + offset_at_utc tz d \<le> ?l"
    using day_floor [of "d + offset_at_utc tz d"] by (simp add: local_day_def)
  with a b show ?thesis
    by (simp add: endOfLocalDay_def local_to_utc_def)
qed

lemma endOfLocalDay_lt:
  assumes "bounded_zone tz"
  shows "endOfLocalDay tz d < d + 3 * msPerDay"
proof -
  let ?l = "local_day tz d * msPerDay + (msPerDay - 1)"
  have a: "\<bar>offset_at_utc tz d\<bar> \<le> msPerDay" and b: "\<bar>offset_at_local tz ?l\<bar> \<le> msPerDay"
    using assms by (simp_all add: bounded_zone_def)
  have "?l < d + offset_at_utc tz d + msPerDay"
    using day_floor [of "d + offset_at_utc tz d"] by (simp add: local_day_def)
  with a b show ?thesis
    by (simp add: endOfLocalDay_def local_to_utc_def)
qed

lemma in_forward_window_10d:
  assumes "bounded_zone tz" and "status t = ''forecasted''"
    and "date t = Timestamp (now + 10 * msPerDay)"
  shows "in_forward_window tz now t"
  using startOfLocalDay_le [OF assms(1), of now]
    endOfLocalDay_ge [OF assms(1), of "now + 30 * msPerDay"] assms(2,3)
  by (simp add: in_forward_window_def msPerDay_def)

lemma not_in_forward_window_40d:
  assumes "bounded_zone tz" and "date t = Timestamp (now + 40 * msPerDay)"
  shows "\<not> in_forward_window tz now t"
  using endOfLocalDay_lt [OF assms(1), of "now + 30 * msPerDay"] assms(2)
  by (simp add: in_forward_window_def msPerDay_def)

subsection \<open>Entries that are summed and entries that are skipped\<close>

lemma totalIncome_insert:
  "ttype t = ''income'' \<Longrightarrow> status t = ''actual'' \<Longrightarrow>
   totalIncome (xs @ t # ys) =
     foldl (\<lambda>acc x. js_add acc (or_zero (amount x)))
       (js_add (totalIncome xs) (or_zero (amount t)))
       (filter (\<lambda>x. ttype x = ''income'' \<and> status x = ''actual'') ys)"
  by (simp add: totalIncome_def)

lemma forecast_income_insert:
  assumes "in_forward_window tz now t" and "ttype t = ''income''"
  shows "income (getForecastCashFlowForNext30Days tz now (xs @ t # ys)) =
           foldl (\<lambda>acc x. js_add acc (or_zero (amount x)))
             (js_add (income (getForecastCashFlowForNext30Days tz now xs)) (or_zero (amount t)))
             (filter (\<lambda>x. in_forward_window tz now x \<and> ttype x = ''income'') ys)"
    and "expenses (getForecastCashFlowForNext30Days tz now (xs @ t # ys)) =
           expenses (getForecastCashFlowForNext30Days tz now (xs @ ys))"
  using assms by (simp_all add: forecast_income forecast_expenses)

lemma forecast_expense_insert:
  assumes "in_forward_window tz now t" and "ttype t = ''expense''"
  shows "expenses (getForecastCashFlowForNext30Days tz now (xs @ t # ys)) =
           foldl (\<lambda>acc x. js_add acc (or_zero (amount x)))
             (js_add (expenses (getForecastCashFlowForNext30Days tz now xs)) (or_zero (amount t)))
             (filter (\<lambda>x. in_forward_window tz now x \<and> ttype x = ''expense'') ys)"
    and "income (getForecastCashFlowForNext30Days tz now (xs @ t # ys)) =
           income (getForecastCashFlowForNext30Days tz now (xs @ ys))"
  using assms by (simp_all add: forecast_income forecast_expenses)

lemma actual_skip:
  "\<not> in_trailing_window now t \<Longrightarrow>
   getActualCashFlowForLast30Days now (xs @ t # ys) = getActualCashFlowForLast30Days now (xs @ ys)"
  by (simp add: getActual_spec actualCashFlow_spec_def)

lemma forecast_skip:
  "\<not> in_forward_window tz now t \<Longrightarrow>
   getForecastCashFlowForNext30Days tz now (xs @ t # ys) = getForecastCashFlowForNext30Days tz now (xs @ ys)"
  by (simp add: getForecast_spec forecastCashFlow_spec_def)

lemma filter_status_actual:
  "filter (\<lambda>t. P t \<and> status t = ''actual'') (filter (\<lambda>t. status t \<noteq> ''forecasted'') ts) =
   filter (\<lambda>t. P t \<and> status t = ''actual'') ts"
  by (induction ts) auto

lemma filter_trailing_window:
  "filter (in_trailing_window now) (filter (\<lambda>t. status t \<noteq> ''forecasted'') ts) =
   filter (in_trailing_window now) ts"
  by (induction ts) (auto simp: in_trailing_window_def)

lemma filter_forward_window:
  "filter (in_forward_window tz now) (filter (\<lambda>t. status t \<noteq> ''actual'') ts) =
   filter (in_forward_window tz now) ts"
  by (induction ts) (auto simp: in_forward_window_def)

subsection \<open>The claims on the derived metrics\<close>

text \<open>
  Claim C2. The trailing-30-day actual cash flow is the sum of the amounts of the entries
  with status actual whose date is at or after the instant of calculation minus 30 days,
  income and expenses apart, and net is income minus expenses. An actual income entry
  dated 31 days before that instant, wherever it stands in the list, leaves the trailing
  figures as they are without it and is summed into totalIncome: its amount is added to
  the sum of the entries before it, and the entries after it are added to the result.
\<close>

theorem C2_trailing_window:
  "getActualCashFlowForLast30Days now ts = actualCashFlow_spec now ts \<and>
   (status t = ''actual'' \<and> ttype t = ''income'' \<and> date t = Timestamp (now - 31 * msPerDay) \<longrightarrow>
      getActualCashFlowForLast30Days now (xs @ t # ys) = getActualCashFlowForLast30Days now (xs @ ys) \<and>
      totalIncome (xs @ t # ys) =
        foldl (\<lambda>acc x. js_add acc (or_zero (amount x)))
          (js_add (totalIncome xs) (or_zero (amount t)))
          (filter (\<lambda>x. ttype x = ''income'' \<and> status x = ''actual'') ys))"
proof (intro conjI impI)
  show "getActualCashFlowForLast30Days now ts = actualCashFlow_spec now ts"
    by (rule getActual_spec)
next
  assume h: "status t = ''actual'' \<and> ttype t = ''income'' \<and> date t = Timestamp (now - 31 * msPerDay)"
  then have "\<not> in_trailing_window now t"
    by (simp add: in_trailing_window_def msPerDay_def)
  then show "getActualCashFlowForLast30Days now (xs @ t # ys) = getActualCashFlowForLast30Days now (xs @ ys)"
    by (rule actual_skip)
  from h show "totalIncome (xs @ t # ys) =
        foldl (\<lambda>acc x. js_add acc (or_zero (amount x)))
          (js_add (totalIncome xs) (or_zero (amount t)))
          (filter (\<lambda>x. ttype x = ''income'' \<and> status x = ''actual'') ys)"
    by (simp add: totalIncome_insert)
qed

text \<open>The theorem at a concrete list.\<close>

theorem C2_trailing_window_witness:
  "status ex_salary_old = ''actual'' \<and> ttype ex_salary_old = ''income'' \<and>
   date ex_salary_old = Timestamp (now0 - 31 * msPerDay) \<and>
   getActualCashFlowForLast30Days now0 [ex_salary_old, ex_groceries] =
     \<lparr>income = Fin 0, expenses = Fin 40, net = Fin (- 40)\<rparr> \<and>
   totalIncome [ex_salary_old, ex_groceries] = Fin 100"
proof -
  have a: "getActualCashFlowForLast30Days now0 [ex_groceries] =
      \<lparr>income = Fin 0, expenses = Fin 40, net = Fin (- 40)\<rparr>"
    by (simp add: getActualCashFlowForLast30Days_def actual_body_def ex_groceries_def
        truthy_date_def toDate_def or_zero_def truthy_num_def js_sub_def now0_def number_simps)
  have b: "totalIncome [] = Fin 0"
    by (simp add: totalIncome_def)
  have c: "or_zero (amount ex_salary_old) = Fin 100"
    by (simp add: ex_salary_old_def or_zero_def truthy_num_def)
  have d: "filter (\<lambda>x. ttype x = ''income'' \<and> status x = ''actual'') [ex_groceries] = []"
    by (simp add: ex_groceries_def)
  have h: "status ex_salary_old = ''actual'' \<and> ttype ex_salary_old = ''income'' \<and>
     date ex_salary_old = Timestamp (now0 - 31 * msPerDay)"
    by (simp add: ex_salary_old_def)
  show ?thesis
    using C2_trailing_window [of now0 "[]" ex_salary_old "[]" "[ex_groceries]"] h a b c d
    by (simp add: number_simps)
qed

text \<open>
  Claim C3. The forward-30-day forecast cash flow is the sum of the amounts of the entries
  with status forecasted whose date lies between the start of the current local day and
  the end of the local day 30 days from now, both ends included, in the local zone with
  the offsets it has on those days. In a zone whose offsets stay within a day, a
  forecasted entry dated 10 days ahead, wherever it stands in the list, is summed into the
  forecast income when it is an income and into the forecast expenses when it is an
  expense (its amount is added to the sum of the entries before it, and the entries after
  it are added to the result), and so into net; a forecasted entry dated 40 days ahead
  changes nothing.
\<close>

theorem C3_forward_window:
  "getForecastCashFlowForNext30Days tz now ts = forecastCashFlow_spec tz now ts \<and>
   (bounded_zone tz \<and> status t = ''forecasted'' \<and> ttype t = ''income''
      \<and> date t = Timestamp (now + 10 * msPerDay) \<longrightarrow>
      income (getForecastCashFlowForNext30Days tz now (xs @ t # ys)) =
        foldl (\<lambda>acc x. js_add acc (or_zero (amount x)))
          (js_add (income (getForecastCashFlowForNext30Days tz now xs)) (or_zero (amount t)))
          (filter (\<lambda>x. in_forward_window tz now x \<and> ttype x = ''income'') ys) \<and>
      expenses (getForecastCashFlowForNext30Days tz now (xs @ t # ys)) =
        expenses (getForecastCashFlowForNext30Days tz now (xs @ ys)) \<and>
      net (getForecastCashFlowForNext30Days tz now (xs @ t # ys)) =
        js_sub (income (getForecastCashFlowForNext30Days tz now (xs @ t # ys)))
               (expenses (getForecastCashFlowForNext30Days tz now (xs @ t # ys)))) \<and>
   (bounded_zone tz \<and> status s = ''forecasted'' \<and> ttype s = ''expense''
      \<and> date s = Timestamp (now + 10 * msPerDay) \<longrightarrow>
      expenses (getForecastCashFlowForNext30Days tz now (xs @ s # ys)) =
        foldl (\<lambda>acc x. js_add acc (or_zero (amount x)))
          (js_add (expenses (getForecastCashFlowForNext30Days tz now xs)) (or_zero (amount s)))
          (filter (\<lambda>x. in_forward_window tz now x \<and> ttype x = ''expense'') ys) \<and>
      income (getForecastCashFlowForNext30Days tz now (xs @ s # ys)) =
        income (getForecastCashFlowForNext30Days tz now (xs @ ys)) \<and>
      net (getForecastCashFlowForNext30Days tz now (xs @ s # ys)) =
        js_sub (income (getForecastCashFlowForNext30Days tz now (xs @ s # ys)))
               (expenses (getForecastCashFlowForNext30Days tz now (xs @ s # ys)))) \<and>
   (bounded_zone tz \<and> status u = ''forecasted'' \<and> date u = Timestamp (now + 40 * msPerDay) \<longrightarrow>
      getForecastCashFlowForNext30Days tz now (xs @ u # ys) =
        getForecastCashFlowForNext30Days tz now (xs @ ys))"
proof (intro conjI impI)
  show "getForecastCashFlowForNext30Days tz now ts = forecastCashFlow_spec tz now ts"
    by (rule getForecast_spec)
next
  assume h: "bounded_zone tz \<and> status t = ''forecasted'' \<and> ttype t = ''income''
      \<and> date t = Timestamp (now + 10 * msPerDay)"
  then have w: "in_forward_window tz now t"
    by (simp add: in_forward_window_10d)
  from h have i: "ttype t = ''income''" by simp
  show "income (getForecastCashFlowForNext30Days tz now (xs @ t # ys)) =
        foldl (\<lambda>acc x. js_add acc (or_zero (amount x)))
          (js_add (income (getForecastCashFlowForNext30Days tz now xs)) (or_zero (amount t)))
          (filter (\<lambda>x. in_forward_window tz now x \<and> ttype x = ''income'') ys)"
    by (rule forecast_income_insert(1) [OF w i])
  show "expenses (getForecastCashFlowForNext30Days tz now (xs @ t # ys)) =
        expenses (getForecastCashFlowForNext30Days tz now (xs @ ys))"
    by (rule forecast_income_insert(2) [OF w i])
  show "net (getForecastCashFlowForNext30Days tz now (xs @ t # ys)) =
        js_sub (income (getForecastCashFlowForNext30Days tz now (xs @ t # ys)))
               (expenses (getForecastCashFlowForNext30Days tz now (xs @ t # ys)))"
    by (rule forecast_net)
next
  assume h: "bounded_zone tz \<and> status s = ''forecasted'' \<and> ttype s = ''expense''
      \<and> date s = Timestamp (now + 10 * msPerDay)"
  then have w: "in_forward_window tz now s"
    by (simp add: in_forward_window_10d)
  from h have e: "ttype s = ''expense''" by simp
  show "expenses (getForecastCashFlowForNext30Days tz now (xs @ s # ys)) =
        foldl (\<lambda>acc x. js_add acc (or_zero (amount x)))
          (js_add (expenses (getForecastCashFlowForNext30Days tz now xs)) (or_zero (amount s)))
          (filter (\<lambda>x. in_forward_window tz now x \<and> ttype x = ''expense'') ys)"
    by (rule forecast_expense_insert(1) [OF w e])
  show "income (getForecastCashFlowForNext30Days tz now (xs @ s # ys)) =
        income (getForecastCashFlowForNext30Days tz now (xs @ ys))"
    by (rule forecast_expense_insert(2) [OF w e])
  show "net (getForecastCashFlowForNext30Days tz now (xs @ s # ys)) =
        js_sub (income (getForecastCashFlowForNext30Days tz now (xs @ s # ys)))
               (expenses (getForecastCashFlowForNext30Days tz now (xs @ s # ys)))"
    by (rule forecast_net)
next
  assume "bounded_zone tz \<and> status u = ''forecasted'' \<and> date u = Timestamp (now + 40 * msPerDay)"
  then have "\<not> in_forward_window tz now u"
    by (simp add: not_in_forward_window_40d)
  then show "getForecastCashFlowForNext30Days tz now (xs @ u # ys) =
        getForecastCashFlowForNext30Days tz now (xs @ ys)"
    by (rule forecast_skip)
qed

text \<open>
  The theorem at concrete lists, in a zone that changes its offset inside the window;
  and the window's last millisecond there, which is an hour later than it would be
  without the change.
\<close>

theorem C3_forward_window_witness:
  "bounded_zone tz0 \<and>
   status ex_bonus_10d = ''forecasted'' \<and> ttype ex_bonus_10d = ''income'' \<and>
   date ex_bonus_10d = Timestamp (now0 + 10 * msPerDay) \<and>
   status ex_fee_10d = ''forecasted'' \<and> ttype ex_fee_10d = ''expense'' \<and>
   date ex_fee_10d = Timestamp (now0 + 10 * msPerDay) \<and>
   status ex_rent_40d = ''forecasted'' \<and> date ex_rent_40d = Timestamp (now0 + 40 * msPerDay) \<and>
   getForecastCashFlowForNext30Days tz0 now0 [ex_bonus_10d, ex_rent_40d] =
     \<lparr>income = Fin 500, expenses = Fin 0, net = Fin 500\<rparr> \<and>
   getForecastCashFlowForNext30Days tz0 now0 [ex_fee_10d] =
     \<lparr>income = Fin 0, expenses = Fin 15, net = Fin (- 15)\<rparr> \<and>
   getForecastCashFlowForNext30Days tz0 now0 [ex_last_ms, ex_too_late] =
     \<lparr>income = Fin 5, expenses = Fin 0, net = Fin 5\<rparr>"
proof -
  have z: "bounded_zone tz0"
    by (simp add: bounded_zone_def tz0_def msPerDay_def)
  have h10: "bounded_zone tz0 \<and> status ex_bonus_10d = ''forecasted'' \<and> ttype ex_bonus_10d = ''income'' \<and>
     date ex_bonus_10d = Timestamp (now0 + 10 * msPerDay)"
    by (simp add: ex_bonus_10d_def z)
  have f10: "bounded_zone tz0 \<and> status ex_fee_10d = ''forecasted'' \<and> ttype ex_fee_10d = ''expense'' \<and>
     date ex_fee_10d = Timestamp (now0 + 10 * msPerDay)"
    by (simp add: ex_fee_10d_def z)
  have h40: "bounded_zone tz0 \<and> status ex_rent_40d = ''forecasted'' \<and>
     date ex_rent_40d = Timestamp (now0 + 40 * msPerDay)"
    by (simp add: ex_rent_40d_def z)
  have e: "getForecastCashFlowForNext30Days tz0 now0 [] = \<lparr>income = Fin 0, expenses = Fin 0, net = Fin 0\<rparr>"
    by (simp add: getForecastCashFlowForNext30Days_def js_sub_def number_simps)
  have c: "or_zero (amount ex_bonus_10d) = Fin 500"
    by (simp add: ex_bonus_10d_def or_zero_def truthy_num_def)
  have d: "or_zero (amount ex_fee_10d) = Fin 15"
    by (simp add: ex_fee_10d_def or_zero_def truthy_num_def)
  have drop: "getForecastCashFlowForNext30Days tz0 now0 ([ex_bonus_10d] @ ex_rent_40d # []) =
      getForecastCashFlowForNext30Days tz0 now0 ([ex_bonus_10d] @ [])"
    using C3_forward_window [where tz = tz0 and now = now0 and ts = "[]" and t = ex_bonus_10d
        and s = ex_fee_10d and u = ex_rent_40d and xs = "[ex_bonus_10d]" and ys = "[]"] h40
    by blast
  have keep: "income (getForecastCashFlowForNext30Days tz0 now0 ([] @ ex_bonus_10d # [])) = Fin 500 \<and>
      expenses (getForecastCashFlowForNext30Days tz0 now0 ([] @ ex_bonus_10d # [])) = Fin 0 \<and>
      net (getForecastCashFlowForNext30Days tz0 now0 ([] @ ex_bonus_10d # [])) = Fin 500"
    using C3_forward_window [where tz = tz0 and now = now0 and ts = "[]" and t = ex_bonus_10d
        and s = ex_fee_10d and u = ex_rent_40d and xs = "[]" and ys = "[]"] h10 e c
    by (simp add: js_sub_def number_simps)
  have fee: "income (getForecastCashFlowForNext30Days tz0 now0 ([] @ ex_fee_10d # [])) = Fin 0 \<and>
      expenses (getForecastCashFlowForNext30Days tz0 now0 ([] @ ex_fee_10d # [])) = Fin 15 \<and>
      net (getForecastCashFlowForNext30Days tz0 now0 ([] @ ex_fee_10d # [])) = Fin (- 15)"
    using C3_forward_window [where tz = tz0 and now = now0 and ts = "[]" and t = ex_bonus_10d
        and s = ex_fee_10d and u = ex_rent_40d and xs = "[]" and ys = "[]"] f10 e d
    by (simp add: js_sub_def number_simps)
  have r1: "getForecastCashFlowForNext30Days tz0 now0 [ex_bonus_10d] =
      \<lparr>income = Fin 500, expenses = Fin 0, net = Fin 500\<rparr>"
    using keep by (cases "getForecastCashFlowForNext30Days tz0 now0 [ex_bonus_10d]") simp
  have r2: "getForecastCashFlowForNext30Days tz0 now0 [ex_fee_10d] =
      \<lparr>income = Fin 0, expenses = Fin 15, net = Fin (- 15)\<rparr>"
    using fee by (cases "getForecastCashFlowForNext30Days tz0 now0 [ex_fee_10d]") simp
  have r3: "getForecastCashFlowForNext30Days tz0 now0 [ex_last_ms, ex_too_late] =
     \<lparr>income = Fin 5, expenses = Fin 0, net = Fin 5\<rparr>"
    by (simp add: getForecastCashFlowForNext30Days_def forecast_body_def setHours_def tz0_def
        now0_def msPerDay_def ex_last_ms_def ex_too_late_def truthy_date_def toDate_def
        or_zero_def truthy_num_def js_sub_def number_simps Let_def)
  from r1 r2 r3 drop h10 f10 h40 show ?thesis by simp
qed

text \<open>
  Claim C7. Removing every forecasted entry from the list changes none of totalIncome,
  totalExpenses, balance and the trailing-30-day actual cash flow, and removing every
  actual entry does not change the forward-30-day forecast cash flow.
\<close>

theorem C7_status_separation:
  "totalIncome ts = totalIncome (filter (\<lambda>t. status t \<noteq> ''forecasted'') ts) \<and>
   totalExpenses ts = totalExpenses (filter (\<lambda>t. status t \<noteq> ''forecasted'') ts) \<and>
   balance ts = balance (filter (\<lambda>t. status t \<noteq> ''forecasted'') ts) \<and>
   getActualCashFlowForLast30Days now ts =
     getActualCashFlowForLast30Days now (filter (\<lambda>t. status t \<noteq> ''forecasted'') ts) \<and>
   getForecastCashFlowForNext30Days tz now ts =
     getForecastCashFlowForNext30Days tz now (filter (\<lambda>t. status t \<noteq> ''actual'') ts)"
proof -
  have i: "totalIncome ts = totalIncome (filter (\<lambda>t. status t \<noteq> ''forecasted'') ts)"
    unfolding totalIncome_def filter_status_actual by (rule refl)
  have e: "totalExpenses ts = totalExpenses (filter (\<lambda>t. status t \<noteq> ''forecasted'') ts)"
    unfolding totalExpenses_def filter_status_actual by (rule refl)
  have b: "balance ts = balance (filter (\<lambda>t. status t \<noteq> ''forecasted'') ts)"
    unfolding balance_def using i e by simp
  have a: "getActualCashFlowForLast30Days now ts =
     getActualCashFlowForLast30Days now (filter (\<lambda>t. status t \<noteq> ''forecasted'') ts)"
    unfolding getActual_spec actualCashFlow_spec_def filter_trailing_window by (rule refl)
  have f: "getForecastCashFlowForNext30Days tz now ts =
     getForecastCashFlowForNext30Days tz now (filter (\<lambda>t. status t \<noteq> ''actual'') ts)"
    unfolding getForecast_spec forecastCashFlow_spec_def filter_forward_window by (rule refl)
  from i e b a f show ?thesis by blast
qed

text \<open>
  Claim C8. For every transaction list, totalIncome minus totalExpenses is balance.
\<close>

theorem C8_balance: "js_sub (totalIncome ts) (totalExpenses ts) = balance ts"
  by (simp add: balance_def)

text \<open>The theorem at the list of a salary of 100 and groceries of 40.\<close>

theorem C8_balance_witness:
  "totalIncome [ex_salary_old, ex_groceries] = Fin 100 \<and>
   totalExpenses [ex_salary_old, ex_groceries] = Fin 40 \<and>
   balance [ex_salary_old, ex_groceries] = Fin 60"
proof -
  have i: "totalIncome [ex_salary_old, ex_groceries] = Fin 100"
    by (simp add: totalIncome_def ex_salary_old_def ex_groceries_def or_zero_def truthy_num_def
        number_simps)
  have e: "totalExpenses [ex_salary_old, ex_groceries] = Fin 40"
    by (simp add: totalExpenses_def ex_salary_old_def ex_groceries_def or_zero_def truthy_num_def
        number_simps)
  show ?thesis
    using C8_balance [of "[ex_salary_old, ex_groceries]"] i e
    by (simp add: js_sub_def number_simps)
qed

text \<open>
  Claim C9. On the empty list totalIncome, totalExpenses and balance are zero, and so are
  income, expenses and net of both 30-day cash flows, at every instant and in every zone.
  The computations have no failing branch.
\<close>

theorem C9_empty:
  "totalIncome [] = Fin 0 \<and> totalExpenses [] = Fin 0 \<and> balance [] = Fin 0 \<and>
   getActualCashFlowForLast30Days now [] = \<lparr>income = Fin 0, expenses = Fin 0, net = Fin 0\<rparr> \<and>
   getForecastCashFlowForNext30Days tz now [] = \<lparr>income = Fin 0, expenses = Fin 0, net = Fin 0\<rparr>"
  by (simp add: totalIncome_def totalExpenses_def balance_def js_sub_def
      getActualCashFlowForLast30Days_def getForecastCashFlowForNext30Days_def number_value_zero)

text \<open>
  Claim C10. An entry whose date is absent, null or not a Timestamp is skipped by both
  windowed computations, whatever its status, type and amount: the figures are those of
  the list without it.
\<close>

theorem C10_unconvertible_date_skipped:
  "(\<forall>ms. date t \<noteq> Timestamp ms) \<Longrightarrow>
   getActualCashFlowForLast30Days now (xs @ t # ys) = getActualCashFlowForLast30Days now (xs @ ys) \<and>
   getForecastCashFlowForNext30Days tz now (xs @ t # ys) = getForecastCashFlowForNext30Days tz now (xs @ ys)"
proof -
  assume h: "\<forall>ms. date t \<noteq> Timestamp ms"
  then have "\<not> in_trailing_window now t" and "\<not> in_forward_window tz now t"
    by (cases "date t"; simp add: in_trailing_window_def in_forward_window_def)+
  then show ?thesis by (simp add: actual_skip forecast_skip)
qed

text \<open>The theorem at a concrete list.\<close>

theorem C10_unconvertible_date_skipped_witness:
  "(\<forall>ms. date ex_pending \<noteq> Timestamp ms) \<and>
   status ex_pending = ''actual'' \<and> ttype ex_pending = ''income'' \<and>
   getActualCashFlowForLast30Days now0 [ex_pending, ex_groceries] =
     \<lparr>income = Fin 0, expenses = Fin 40, net = Fin (- 40)\<rparr> \<and>
   getForecastCashFlowForNext30Days tz0 now0 [ex_bonus_10d, ex_pending] =
     getForecastCashFlowForNext30Days tz0 now0 [ex_bonus_10d]"
proof -
  have h: "\<forall>ms. date ex_pending \<noteq> Timestamp ms"
    by (simp add: ex_pending_def)
  have a: "getActualCashFlowForLast30Days now0 [ex_groceries] =
      \<lparr>income = Fin 0, expenses = Fin 40, net = Fin (- 40)\<rparr>"
    by (simp add: getActualCashFlowForLast30Days_def actual_body_def ex_groceries_def
        truthy_date_def toDate_def or_zero_def truthy_num_def js_sub_def now0_def number_simps)
  have s: "status ex_pending = ''actual'' \<and> ttype ex_pending = ''income''"
    by (simp add: ex_pending_def)
  show ?thesis
    using C10_unconvertible_date_skipped [OF h, of now0 "[]" "[ex_groceries]" tz0]
      C10_unconvertible_date_skipped [OF h, of now0 "[ex_bonus_10d]" "[]" tz0] h a s
    by simp
qed

section \<open>Properties of the handlers\<close>

subsection \<open>Conversions at the example texts\<close>

lemmas parse_defs = parseFloat_def toNumber_def decimal_prefix_def unsigned_decimal_def exponent_part_def
  scale10_def is_digit_def is_ws_def trim_def trim_start_def hex_val_def non_decimal_def js_def

lemma parseFloat_50: "parseFloat (js ''50'') = Fin 50"
  by (simp add: parse_defs Let_def number_simps)







lemma js_nonempty: "js ''Rent'' \<noteq> [] \<and> js ''50'' \<noteq> [] \<and> js ''2024-01-15'' \<noteq> []"
  by (simp add: js_def)

subsection \<open>Adding a transaction or an item\<close>





lemma handleAddItem_accepts:
  assumes "\<not> isNaN (parseFloat (fd_amount form))"
    and "\<not> js_le (parseFloat (fd_amount form)) (Fin 0)"
    and "fd_description form \<noteq> []"
  shows "snd (handleAddItem appId add_ok set_ok form vst) =
     V2_addDoc (getUserDataPath appId vst ''items'')
        \<lparr>it_date = Date (fd_date form), it_amount = parseFloat (fd_amount form),
         it_type = fd_type form, it_description = fd_description form\<rparr> #
     (if add_ok then
        [V2_setDoc (getUserDataPath appId vst ''budgets'') ''summary''
           [(''budget'', if fd_type form = ''income''
                         then js_add (v2_budget vst) (parseFloat (fd_amount form))
                         else js_sub (v2_budget vst) (parseFloat (fd_amount form))),
            (''income'', if fd_type form = ''income''
                         then js_add (v2_income vst) (parseFloat (fd_amount form))
                         else v2_income vst),
            (''expense'', if fd_type form = ''expense''
                          then js_add (v2_expense vst) (parseFloat (fd_amount form))
                          else v2_expense vst)] True]
      else [])"
  using assms by (simp add: handleAddItem_def Let_def truthy_Date_def)

subsection \<open>The forecast\<close>

lemma handleForecast_fails:
  assumes "response = FetchRejected \<or> response = BodyNotJson
      \<or> (\<exists>result. response = Body result
            \<and> (\<not> truthy_json (response_text result)
                \<or> JSON_parse (the (response_text result)) = None))"
  shows "fst (handleForecast JSON_parse response st) =
           st\<lparr>v2_message := ''Failed to generate forecast.'', v2_isLoading := False\<rparr>"
    and "snd (handleForecast JSON_parse response st) \<noteq> None"
  using assms by (auto simp: handleForecast_def showMessage_def Let_def)

lemma handleForecast_succeeds:
  assumes "truthy_json (response_text result)"
    and "JSON_parse (the (response_text result)) = Some parsed"
  shows "handleForecast JSON_parse (Body result) st =
           (st\<lparr>v2_forecastItems := parsed, v2_message := ''Forecast generated successfully!'',
               v2_isLoading := False\<rparr>, None)"
  using assms by (simp add: handleForecast_def showMessage_def Let_def)

lemma response_text_ex: "response_text (ex_response text) = Some (JStr text)"
  by (simp add: response_text_def ex_response_def get_member_def get_first_def)

subsection \<open>The authentication listeners\<close>

lemma authStateChanged_flag:
  "isInitialAuthAttempt (fst (authStateChanged tok user st)) = isInitialAuthAttempt st"
  by (cases user) (simp_all add: authStateChanged_def Let_def)

lemma authStateChanged_no_call:
  "\<not> isInitialAuthAttempt st \<Longrightarrow> snd (authStateChanged tok user st) = []"
  by (cases user) (simp_all add: authStateChanged_def Let_def)

lemma signInSettled_flag: "\<not> isInitialAuthAttempt (signInSettled ok st)"
  by (simp add: signInSettled_def Let_def)

lemma run_auth_cleared:
  "\<not> isInitialAuthAttempt (fst c) \<Longrightarrow> snd (run_auth tok evs c) = []"
proof (induction evs arbitrary: c)
  case Nil
  show ?case by simp
next
  case (Cons ev evs)
  show ?case
  proof (cases ev)
    case (Notify user)
    have "\<not> isInitialAuthAttempt (fst (authStateChanged tok user (fst c)))"
      using Cons.prems by (simp add: authStateChanged_flag)
    then have "snd (run_auth tok evs (fst (authStateChanged tok user (fst c)),
        snd c + length (snd (authStateChanged tok user (fst c))))) = []"
      by (intro Cons.IH) simp
    then show ?thesis
      using Cons.prems by (simp add: Notify Let_def authStateChanged_no_call)
  next
    case (Settle ok)
    have "snd (run_auth tok evs (signInSettled ok (fst c), snd c - 1)) = []"
      by (intro Cons.IH) (simp add: signInSettled_flag)
    moreover have "snd (run_auth tok evs c) = []"
      by (intro Cons.IH Cons.prems)
    ultimately show ?thesis by (simp add: Settle)
  qed
qed

lemma run_auth_append:
  "run_auth tok (xs @ ys) c =
     (fst (run_auth tok ys (fst (run_auth tok xs c))),
      snd (run_auth tok xs c) @ snd (run_auth tok ys (fst (run_auth tok xs c))))"
proof (induction xs arbitrary: c)
  case Nil
  show ?case by simp
next
  case (Cons ev xs)
  show ?case
    by (cases ev) (simp_all add: Cons.IH Let_def)
qed

lemma run_auth_after_settle:
  assumes "0 < snd (fst (run_auth tok pre c))"
  shows "snd (run_auth tok (pre @ Settle ok # post) c) = snd (run_auth tok pre c)"
proof -
  obtain st n where r: "fst (run_auth tok pre c) = (st, n)"
    by (cases "fst (run_auth tok pre c)")
  with assms have n: "n \<noteq> 0" by simp
  have "snd (run_auth tok post (signInSettled ok st, n - 1)) = []"
    by (intro run_auth_cleared) (simp add: signInSettled_flag)
  then show ?thesis
    by (simp add: run_auth_append r n)
qed

lemma v2_run_auth_count:
  "length (snd (v2_run_auth tok us st)) = length (filter (\<lambda>u. u = None) us)"
proof (induction us arbitrary: st)
  case Nil
  show ?case by simp
next
  case (Cons u us)
  show ?case
    by (cases u) (simp_all add: Cons.IH v2_authStateChanged_def Let_def)
qed

subsection \<open>The claims on the handlers\<close>




text \<open>
  Claim C4. In variant 2, when a submitted item passes validation with amount a and its
  insert succeeds, the handler next writes the summary document with the merge option,
  with budget = old budget + a for an income and old budget - a otherwise, income = old
  income + a for an income and the old income otherwise, expense = old expense + a for an
  expense and the old expense otherwise. On the stored document the write sets these three
  fields and leaves every other field as it was.
\<close>

theorem C4_summary_update:
  assumes "\<not> isNaN (parseFloat (fd_amount form))"
    and "\<not> js_le (parseFloat (fd_amount form)) (Fin 0)"
    and "fd_description form \<noteq> []"
    and "a = parseFloat (fd_amount form)"
    and "data = [(''budget'', if fd_type form = ''income'' then js_add (v2_budget st) a
                              else js_sub (v2_budget st) a),
                 (''income'', if fd_type form = ''income'' then js_add (v2_income st) a
                              else v2_income st),
                 (''expense'', if fd_type form = ''expense'' then js_add (v2_expense st) a
                               else v2_expense st)]"
  shows "tl (snd (handleAddItem appId True setDoc_ok form st)) =
           [V2_setDoc (getUserDataPath appId st ''budgets'') ''summary'' data True] \<and>
         apply_setDoc stored data True ''budget'' =
           Some (if fd_type form = ''income'' then js_add (v2_budget st) a
                 else js_sub (v2_budget st) a) \<and>
         apply_setDoc stored data True ''income'' =
           Some (if fd_type form = ''income'' then js_add (v2_income st) a else v2_income st) \<and>
         apply_setDoc stored data True ''expense'' =
           Some (if fd_type form = ''expense'' then js_add (v2_expense st) a else v2_expense st) \<and>
         (\<forall>k. k \<noteq> ''budget'' \<and> k \<noteq> ''income'' \<and> k \<noteq> ''expense'' \<longrightarrow>
              apply_setDoc stored data True k = stored k)"
proof -
  have "tl (snd (handleAddItem appId True setDoc_ok form st)) =
           [V2_setDoc (getUserDataPath appId st ''budgets'') ''summary'' data True]"
    using assms(4,5) by (simp add: handleAddItem_accepts [OF assms(1,2,3)])
  moreover have "apply_setDoc stored data True ''budget'' =
           Some (if fd_type form = ''income'' then js_add (v2_budget st) a
                 else js_sub (v2_budget st) a)"
    by (simp add: apply_setDoc_def assms(5))
  moreover have "apply_setDoc stored data True ''income'' =
           Some (if fd_type form = ''income'' then js_add (v2_income st) a else v2_income st)"
    by (simp add: apply_setDoc_def assms(5))
  moreover have "apply_setDoc stored data True ''expense'' =
           Some (if fd_type form = ''expense'' then js_add (v2_expense st) a else v2_expense st)"
    by (simp add: apply_setDoc_def assms(5))
  moreover have "\<forall>k. k \<noteq> ''budget'' \<and> k \<noteq> ''income'' \<and> k \<noteq> ''expense'' \<longrightarrow>
              apply_setDoc stored data True k = stored k"
    by (simp add: apply_setDoc_def assms(5) map_add_def)
  ultimately show ?thesis by blast
qed

text \<open>The theorem at concrete inputs.\<close>

theorem C4_summary_update_witness:
  "\<not> isNaN (parseFloat (fd_amount ex_form_valid)) \<and>
   \<not> js_le (parseFloat (fd_amount ex_form_valid)) (Fin 0) \<and>
   fd_description ex_form_valid \<noteq> [] \<and>
   tl (snd (handleAddItem ''app'' True True ex_form_valid ex_state_v2)) =
     [V2_setDoc ''artifacts/app/users/u1/budgets'' ''summary''
        [(''budget'', Fin 250), (''income'', Fin 350), (''expense'', Fin 100)] True] \<and>
   apply_setDoc [''budget'' \<mapsto> Fin 200, ''income'' \<mapsto> Fin 300, ''expense'' \<mapsto> Fin 100]
     [(''budget'', Fin 250), (''income'', Fin 350), (''expense'', Fin 100)] True ''budget'' =
     Some (Fin 250)"
proof -
  have h1: "\<not> isNaN (parseFloat (fd_amount ex_form_valid))"
    by (simp add: ex_form_valid_def parseFloat_50 isNaN_def)
  have h2: "\<not> js_le (parseFloat (fd_amount ex_form_valid)) (Fin 0)"
    by (simp add: ex_form_valid_def parseFloat_50)
  have h3: "fd_description ex_form_valid \<noteq> []"
    using js_nonempty by (simp add: ex_form_valid_def)
  have a: "Fin 50 = parseFloat (fd_amount ex_form_valid)"
    by (simp add: ex_form_valid_def parseFloat_50)
  have d: "[(''budget'', Fin 250), (''income'', Fin 350), (''expense'', Fin 100)] =
      [(''budget'', if fd_type ex_form_valid = ''income'' then js_add (v2_budget ex_state_v2) (Fin 50)
                    else js_sub (v2_budget ex_state_v2) (Fin 50)),
       (''income'', if fd_type ex_form_valid = ''income'' then js_add (v2_income ex_state_v2) (Fin 50)
                    else v2_income ex_state_v2),
       (''expense'', if fd_type ex_form_valid = ''expense'' then js_add (v2_expense ex_state_v2) (Fin 50)
                     else v2_expense ex_state_v2)]"
    by (simp add: ex_form_valid_def ex_state_v2_def v2_initial_state_def number_simps)
  have p: "getUserDataPath ''app'' ex_state_v2 ''budgets'' = ''artifacts/app/users/u1/budgets''"
    by (simp add: getUserDataPath_def ex_state_v2_def v2_initial_state_def truthy_str_def)
  show ?thesis
    using C4_summary_update [OF h1 h2 h3 a d, of "''app''" True
        "[''budget'' \<mapsto> Fin 200, ''income'' \<mapsto> Fin 300, ''expense'' \<mapsto> Fin 100]"]
      h1 h2 h3 p
    by (simp add: ex_form_valid_def ex_state_v2_def v2_initial_state_def number_simps)
qed

text \<open>
  Claim C5. When the request fails, the response has no truthy value at
  candidates[0].content.parts[0].text, or that text does not parse as JSON, handleForecast
  ends in its catch block with an error and the forecast list keeps its previous value:
  only the message and the busy flag are written. When the text parses, the forecast list
  is replaced by the parsed value as a whole.
\<close>

theorem C5_forecast_all_or_nothing:
  "(response = FetchRejected \<or> response = BodyNotJson
      \<or> (\<exists>result. response = Body result
            \<and> (\<not> truthy_json (response_text result)
                \<or> JSON_parse (the (response_text result)) = None))
    \<longrightarrow> snd (handleForecast JSON_parse response st) \<noteq> None
        \<and> v2_forecastItems (fst (handleForecast JSON_parse response st)) = v2_forecastItems st
        \<and> fst (handleForecast JSON_parse response st) =
              st\<lparr>v2_message := ''Failed to generate forecast.'', v2_isLoading := False\<rparr>) \<and>
   (truthy_json (response_text result') \<and> JSON_parse (the (response_text result')) = Some parsed
    \<longrightarrow> handleForecast JSON_parse (Body result') st =
          (st\<lparr>v2_forecastItems := parsed, v2_message := ''Forecast generated successfully!'',
              v2_isLoading := False\<rparr>, None))"
proof (intro conjI impI)
  assume h: "response = FetchRejected \<or> response = BodyNotJson
      \<or> (\<exists>result. response = Body result
            \<and> (\<not> truthy_json (response_text result)
                \<or> JSON_parse (the (response_text result)) = None))"
  show "snd (handleForecast JSON_parse response st) \<noteq> None"
    by (rule handleForecast_fails(2) [OF h])
  show f: "fst (handleForecast JSON_parse response st) =
              st\<lparr>v2_message := ''Failed to generate forecast.'', v2_isLoading := False\<rparr>"
    by (rule handleForecast_fails(1) [OF h])
  show "v2_forecastItems (fst (handleForecast JSON_parse response st)) = v2_forecastItems st"
    by (simp add: f)
next
  assume "truthy_json (response_text result') \<and> JSON_parse (the (response_text result')) = Some parsed"
  then show "handleForecast JSON_parse (Body result') st =
          (st\<lparr>v2_forecastItems := parsed, v2_message := ''Forecast generated successfully!'',
              v2_isLoading := False\<rparr>, None)"
    by (simp add: handleForecast_succeeds)
qed

text \<open>The theorem at concrete inputs.\<close>

theorem C5_forecast_all_or_nothing_witness:
  "response_text (ex_response ''oops'') = Some (JStr ''oops'') \<and>
   ex_JSON_parse (JStr ''oops'') = None \<and>
   handleForecast ex_JSON_parse (Body (ex_response ''oops'')) ex_state_forecast =
     (ex_state_forecast\<lparr>v2_message := ''Failed to generate forecast.''\<rparr>, Some TextParseFailed) \<and>
   response_text (JObj [(''error'', JStr ''quota'')]) = None \<and>
   v2_forecastItems (fst (handleForecast ex_JSON_parse (Body (JObj [(''error'', JStr ''quota'')]))
     ex_state_forecast)) = JArr [JNum (Fin 7)] \<and>
   handleForecast ex_JSON_parse (Body (ex_response ''[1]'')) ex_state_forecast =
     (ex_state_forecast\<lparr>v2_forecastItems := JArr [JNum (Fin 1)],
        v2_message := ''Forecast generated successfully!''\<rparr>, None)"
proof -
  have p1: "ex_JSON_parse (JStr ''oops'') = None"
    by (simp add: ex_JSON_parse_def)
  have p2: "ex_JSON_parse (JStr ''[1]'') = Some (JArr [JNum (Fin 1)])"
    by (simp add: ex_JSON_parse_def)
  have t0: "response_text (JObj [(''error'', JStr ''quota'')]) = None"
    by (simp add: response_text_def get_member_def get_first_def)
  have l: "v2_isLoading ex_state_forecast = False"
      "v2_forecastItems ex_state_forecast = JArr [JNum (Fin 7)]"
    by (simp_all add: ex_state_forecast_def v2_initial_state_def)
  have bad: "Body (ex_response ''oops'') = FetchRejected \<or> Body (ex_response ''oops'') = BodyNotJson
      \<or> (\<exists>result. Body (ex_response ''oops'') = Body result
            \<and> (\<not> truthy_json (response_text result)
                \<or> ex_JSON_parse (the (response_text result)) = None))"
    by (simp add: response_text_ex p1)
  have none: "Body (JObj [(''error'', JStr ''quota'')]) = FetchRejected
      \<or> Body (JObj [(''error'', JStr ''quota'')]) = BodyNotJson
      \<or> (\<exists>result. Body (JObj [(''error'', JStr ''quota'')]) = Body result
            \<and> (\<not> truthy_json (response_text result)
                \<or> ex_JSON_parse (the (response_text result)) = None))"
    by (simp add: t0 truthy_json_def)
  have good: "truthy_json (response_text (ex_response ''[1]''))
      \<and> ex_JSON_parse (the (response_text (ex_response ''[1]''))) = Some (JArr [JNum (Fin 1)])"
    by (simp add: response_text_ex p2 truthy_json_def)
  have e: "snd (handleForecast ex_JSON_parse (Body (ex_response ''oops'')) ex_state_forecast) =
      Some TextParseFailed"
    by (simp add: handleForecast_def response_text_ex p1 truthy_json_def Let_def)
  have s1: "ex_state_forecast\<lparr>v2_message := ''Failed to generate forecast.'', v2_isLoading := False\<rparr>
      = ex_state_forecast\<lparr>v2_message := ''Failed to generate forecast.''\<rparr>"
    by (simp add: ex_state_forecast_def v2_initial_state_def)
  have s2: "ex_state_forecast\<lparr>v2_forecastItems := JArr [JNum (Fin 1)],
        v2_message := ''Forecast generated successfully!'', v2_isLoading := False\<rparr>
      = ex_state_forecast\<lparr>v2_forecastItems := JArr [JNum (Fin 1)],
        v2_message := ''Forecast generated successfully!''\<rparr>"
    by (simp add: ex_state_forecast_def v2_initial_state_def)
  have a: "fst (handleForecast ex_JSON_parse (Body (ex_response ''oops'')) ex_state_forecast) =
      ex_state_forecast\<lparr>v2_message := ''Failed to generate forecast.''\<rparr>"
    using C5_forecast_all_or_nothing [where response = "Body (ex_response ''oops'')"
        and JSON_parse = ex_JSON_parse and st = ex_state_forecast] bad s1
    by simp
  have b: "v2_forecastItems (fst (handleForecast ex_JSON_parse
      (Body (JObj [(''error'', JStr ''quota'')])) ex_state_forecast)) = JArr [JNum (Fin 7)]"
    using C5_forecast_all_or_nothing [where response = "Body (JObj [(''error'', JStr ''quota'')])"
        and JSON_parse = ex_JSON_parse and st = ex_state_forecast] none l
    by simp
  have c: "handleForecast ex_JSON_parse (Body (ex_response ''[1]'')) ex_state_forecast =
     (ex_state_forecast\<lparr>v2_forecastItems := JArr [JNum (Fin 1)],
        v2_message := ''Forecast generated successfully!''\<rparr>, None)"
    using C5_forecast_all_or_nothing [where result' = "ex_response ''[1]''"
        and JSON_parse = ex_JSON_parse and st = ex_state_forecast
        and parsed = "JArr [JNum (Fin 1)]"] good s2
    by simp
  from a e have "handleForecast ex_JSON_parse (Body (ex_response ''oops'')) ex_state_forecast =
     (ex_state_forecast\<lparr>v2_message := ''Failed to generate forecast.''\<rparr>, Some TextParseFailed)"
    by (simp add: prod_eq_iff)
  with b c p1 t0 show ?thesis
    by (simp add: response_text_ex)
qed

text \<open>
  Claim C6 says that in both variants the automatic sign-in is attempted at most once. In
  variant 2 the listener has no one-shot flag: after a first automatic sign-in, a later
  notification without a user starts a second one. In variant 1 the flag is cleared only
  when the awaited sign-in settles: a notification without a user that arrives before
  (after a manual login and logout, say) starts a second automatic sign-in.
\<close>

theorem C6_counterexample:
  "snd (v2_run_auth None [None, Some ''u1'', None] v2_initial_state) =
     [SignInAnonymously, SignInAnonymously] \<and>
   snd (run_auth None [Notify None, Notify (Some (''u1'', Some ''a@b.c'')), Notify None]
          (initial_state, 0)) =
     [SignInAnonymously, SignInAnonymously]"
  by (simp add: v2_authStateChanged_def authStateChanged_def initial_state_def truthy_str_def Let_def)

text \<open>
  Claim C6, as the code has it. In variant 1 the first notification without a user
  attempts one automatic sign-in, with the token when one is supplied and anonymously
  otherwise; once an awaited automatic sign-in has settled, resolved or rejected, the flag
  isInitialAuthAttempt is cleared and no later event, a sign-out included, starts another
  automatic sign-in. In variant 2 every notification without a user attempts one
  automatic sign-in.
\<close>

theorem C6_auto_sign_in:
  "snd (run_auth tok [Notify None] (initial_state, 0)) =
     [if truthy_str tok then SignInWithCustomToken (the tok) else SignInAnonymously] \<and>
   snd (run_auth tok evs (signInSettled ok st, n)) = [] \<and>
   (0 < snd (fst (run_auth tok pre (initial_state, 0))) \<longrightarrow>
      snd (run_auth tok (pre @ Settle ok # post) (initial_state, 0)) =
        snd (run_auth tok pre (initial_state, 0))) \<and>
   length (snd (v2_run_auth tok us vst)) = length (filter (\<lambda>u. u = None) us)"
proof (intro conjI impI)
  show "snd (run_auth tok [Notify None] (initial_state, 0)) =
     [if truthy_str tok then SignInWithCustomToken (the tok) else SignInAnonymously]"
    by (simp add: authStateChanged_def initial_state_def Let_def)
  show "snd (run_auth tok evs (signInSettled ok st, n)) = []"
    by (intro run_auth_cleared) (simp add: signInSettled_flag)
  show "length (snd (v2_run_auth tok us vst)) = length (filter (\<lambda>u. u = None) us)"
    by (rule v2_run_auth_count)
next
  assume "0 < snd (fst (run_auth tok pre (initial_state, 0)))"
  then show "snd (run_auth tok (pre @ Settle ok # post) (initial_state, 0)) =
        snd (run_auth tok pre (initial_state, 0))"
    by (rule run_auth_after_settle)
qed

text \<open>
  The theorem at a concrete run: the first sign-in settles, and the two later
  notifications without a user start nothing.
\<close>

theorem C6_auto_sign_in_witness:
  "0 < snd (fst (run_auth None [Notify None] (initial_state, 0))) \<and>
   snd (run_auth None ([Notify None] @ Settle True # ex_events) (initial_state, 0)) =
     [SignInAnonymously]"
proof -
  have p: "0 < snd (fst (run_auth None [Notify None] (initial_state, 0)))"
    by (simp add: authStateChanged_def initial_state_def truthy_str_def Let_def)
  show ?thesis
    using C6_auto_sign_in [where tok = None and pre = "[Notify None]" and ok = True
        and post = ex_events and evs = "[]" and st = initial_state and n = 0
        and us = "[]" and vst = v2_initial_state] p
    by (simp add: truthy_str_def)
qed

end
